theory Spec2Isabelle
  imports Main
begin

section \<open>Values exchanged with the client\<close>

text \<open>
  Request bodies and response data are JSON. A parsed JSON object is a Python dict;
  it is kept as an association list and read with \<open>map_of\<close>. Numbers are integers
  (floating point is left out); strings are sequences of ASCII characters.
\<close>

datatype json =
    JNull
  | JBool bool
  | JInt int
  | JStr string
  | JList "json list"
  | JObj "(string \<times> json) list"

type_synonym dict = "(string \<times> json) list"

text \<open>Python's truth value of a parsed JSON value, as \<open>not x\<close> tests it.\<close>

fun truthy :: "json \<Rightarrow> bool" where
  "truthy JNull = False"
| "truthy (JBool b) = b"
| "truthy (JInt n) = (n \<noteq> 0)"
| "truthy (JStr s) = (s \<noteq> [])"
| "truthy (JList xs) = (xs \<noteq> [])"
| "truthy (JObj kvs) = (kvs \<noteq> [])"

text \<open>\<open>request.data.get(key)\<close>: the value, or Python's \<open>None\<close> when the key is absent.\<close>

definition dict_get :: "dict \<Rightarrow> string \<Rightarrow> json" where
  "dict_get d k = (case map_of d k of None \<Rightarrow> JNull | Some v \<Rightarrow> v)"

text \<open>\<open>Response(data, status=...)\<close> of the REST framework.\<close>

datatype response = Response (data: json) (status: nat)

definition HTTP_200_OK :: nat where "HTTP_200_OK = 200"
definition HTTP_201_CREATED :: nat where "HTTP_201_CREATED = 201"
definition HTTP_204_NO_CONTENT :: nat where "HTTP_204_NO_CONTENT = 204"
definition HTTP_400_BAD_REQUEST :: nat where "HTTP_400_BAD_REQUEST = 400"
definition HTTP_404_NOT_FOUND :: nat where "HTTP_404_NOT_FOUND = 404"

text \<open>Exceptions that leave a handler.\<close>

datatype exn =
    Http404
  | ValidationError json
  | IntegrityError string
  | TypeError string

section \<open>The models of \<open>shop/models.py\<close>\<close>

text \<open>
  A \<open>ForeignKey\<close> declaration: the referenced model, the \<open>on_delete\<close> rule and the
  \<open>null\<close> option, which is \<open>False\<close> unless the declaration says otherwise.
\<close>

datatype on_delete = CASCADE | DO_NOTHING

record foreign_key =
  fk_to :: string
  fk_on_delete :: on_delete
  fk_null :: bool

definition ForeignKey :: "string \<Rightarrow> on_delete \<Rightarrow> foreign_key" where
  "ForeignKey to rule = \<lparr>fk_to = to, fk_on_delete = rule, fk_null = False\<rparr>"

definition UserLoginLog_user :: foreign_key where
  "UserLoginLog_user = ForeignKey ''User'' CASCADE"

definition Product_user :: foreign_key where
  "Product_user = ForeignKey ''User'' CASCADE"

definition Sale_product :: foreign_key where
  "Sale_product = ForeignKey ''Product'' CASCADE"

definition Sale_user :: foreign_key where
  "Sale_user = ForeignKey ''User'' CASCADE"

text \<open>
  Rows. A reference to another row is its primary key. A price is kept in hundredths
  (the column has two decimal places); a time is a number of ticks. The password column
  of a user holds what \<open>make_password\<close> returned.
\<close>

record user_row =
  user_username :: string
  user_password :: string

record product_row =
  product_name :: string
  product_price :: int
  product_user :: nat

record sale_row =
  sale_product :: nat
  sale_user :: nat
  sale_date :: nat

record log_row =
  log_user :: "nat option"
  log_username :: json
  log_success :: bool
  log_timestamp :: nat

text \<open>
  A table is the list of its rows with their primary keys, in insertion order. The
  persistent state is the four tables and the session of the calling client
  (the user id that \<open>login\<close> stored in it, if any).
\<close>

type_synonym 'a table = "(nat \<times> 'a) list"

record db =
  auth_user :: "user_row table"
  shop_product :: "product_row table"
  shop_sale :: "sale_row table"
  shop_userloginlog :: "log_row table"
  django_session :: "nat option"

text \<open>The database hands out a primary key that no row of the table has.\<close>

definition next_pk :: "'a table \<Rightarrow> nat" where
  "next_pk t = Suc (fold max (map fst t) 0)"

definition insert_row :: "'a table \<Rightarrow> 'a \<Rightarrow> 'a table" where
  "insert_row t r = t @ [(next_pk t, r)]"

definition update_row :: "'a table \<Rightarrow> nat \<Rightarrow> 'a \<Rightarrow> 'a table" where
  "update_row t pk r = map (\<lambda>(k, old). if k = pk then (k, r) else (k, old)) t"

definition delete_rows :: "(nat \<Rightarrow> 'a \<Rightarrow> bool) \<Rightarrow> 'a table \<Rightarrow> 'a table" where
  "delete_rows P t = filter (\<lambda>(k, r). \<not> P k r) t"

section \<open>What the handlers take from outside the repository\<close>

text \<open>
  The functions of the framework and of Python that the handlers call and that this
  repository does not define are parameters of the model:
  \<^item> \<open>authenticate\<close>: the credential check of \<open>django.contrib.auth\<close>; it returns the
    user (its primary key) or nothing;
  \<^item> \<open>make_password\<close>: the salted hash of a raw password (\<open>None\<close> gives an unusable one);
  \<^item> \<open>now\<close>: the server clock when the request is handled;
  \<^item> \<open>username_ok\<close>: the character rule for user names of \<open>django.contrib.auth\<close>;
  \<^item> \<open>py_int\<close>: Python's \<open>int(s)\<close> on a string;
  \<^item> \<open>decimal_in\<close>, \<open>decimal_out\<close>: parsing and printing of a decimal with at most ten
    digits, two of them after the point;
  \<^item> \<open>isoformat\<close>: printing of a time.
\<close>

record env =
  authenticate :: "db \<Rightarrow> json \<Rightarrow> json \<Rightarrow> nat option"
  make_password :: "string option \<Rightarrow> string"
  now :: nat
  username_ok :: "string \<Rightarrow> bool"
  py_int :: "string \<Rightarrow> int option"
  decimal_in :: "json \<Rightarrow> json + int"
  decimal_out :: "int \<Rightarrow> json"
  isoformat :: "nat \<Rightarrow> string"

section \<open>The login handler\<close>

text \<open>
  \<open>UserLoginLog.objects.create(...)\<close>: the row is inserted with the current time
  (\<open>auto_now_add\<close>). The column of a foreign key that is not declared \<open>null=True\<close>
  is \<open>NOT NULL\<close>: inserting a row without the reference raises \<open>IntegrityError\<close>
  and writes nothing.
\<close>

definition UserLoginLog_create ::
  "env \<Rightarrow> nat option \<Rightarrow> json \<Rightarrow> bool \<Rightarrow> db \<Rightarrow> exn + db" where
  "UserLoginLog_create e usr uname succ s =
     (if usr = None \<and> \<not> fk_null UserLoginLog_user then
        Inl (IntegrityError ''NOT NULL constraint failed: shop_userloginlog.user_id'')
      else
        Inr (s\<lparr>shop_userloginlog :=
                 insert_row (shop_userloginlog s)
                   \<lparr>log_user = usr, log_username = uname, log_success = succ,
                    log_timestamp = now e\<rparr>\<rparr>))"

text \<open>\<open>login(request, user)\<close>: the session now belongs to the user.\<close>

definition login :: "nat \<Rightarrow> db \<Rightarrow> db" where
  "login usr s = s\<lparr>django_session := Some usr\<rparr>"

text \<open>\<open>UserLoginView.post\<close>. An exception raised by a call leaves the handler.\<close>

definition UserLoginView_post :: "env \<Rightarrow> dict \<Rightarrow> db \<Rightarrow> (exn + response) \<times> db" where
  "UserLoginView_post e request_data s =
     (let username = dict_get request_data ''username'';
          password = dict_get request_data ''password''
      in
        if \<not> truthy username \<or> \<not> truthy password then
          (Inr (Response (JObj [(''error'', JStr ''Username and password are required'')])
                  HTTP_400_BAD_REQUEST), s)
        else
          (case authenticate e s username password of
             None \<Rightarrow>
               (case UserLoginLog_create e None username False s of
                  Inl x \<Rightarrow> (Inl x, s)
                | Inr s' \<Rightarrow>
                    (Inr (Response (JObj [(''error'', JStr ''Invalid credentials'')])
                            HTTP_400_BAD_REQUEST), s'))
           | Some usr \<Rightarrow>
               (case UserLoginLog_create e (Some usr) username True s of
                  Inl x \<Rightarrow> (Inl x, s)
                | Inr s' \<Rightarrow>
                    (Inr (Response (JObj [(''message'', JStr ''Login successful'')])
                            HTTP_200_OK), login usr s'))))"

section \<open>Serializers\<close>

text \<open>
  Validated data and attributes of model instances are Python values: a string, an
  integer, a decimal (in hundredths), a time, or a model instance (its primary key).
\<close>

datatype pyval =
    PyNone
  | PyStr string
  | PyInt int
  | PyDecimal int
  | PyDateTime nat
  | PyRef nat

text \<open>
  A serializer field: its name, the \<open>read_only\<close>, \<open>write_only\<close> and \<open>required\<close>
  options, the validation of a submitted value (an error detail or the validated value)
  and the output form of an attribute.
\<close>

record field =
  field_name :: string
  read_only :: bool
  write_only :: bool
  required :: bool
  to_internal_value :: "json \<Rightarrow> json + pyval"
  to_representation :: "pyval \<Rightarrow> json"

definition detail :: "string \<Rightarrow> json" where
  "detail msg = JList [JStr msg]"

subsection \<open>Field classes\<close>

text \<open>Python's \<open>str.strip()\<close> and \<open>str(n)\<close> for an integer.\<close>

definition is_space :: "char \<Rightarrow> bool" where
  "is_space c = (c \<in> set [CHR '' '', CHR 0x09, CHR 0x0A, CHR 0x0B, CHR 0x0C, CHR 0x0D,
                            CHR 0x1C, CHR 0x1D, CHR 0x1E, CHR 0x1F])"

definition strip :: "string \<Rightarrow> string" where
  "strip s = rev (dropWhile is_space (rev (dropWhile is_space s)))"

fun str_nat :: "nat \<Rightarrow> string" where
  "str_nat n =
     (if n < 10 then [char_of (48 + n)]
      else str_nat (n div 10) @ [char_of (48 + n mod 10)])"

declare str_nat.simps [simp del]

definition str_int :: "int \<Rightarrow> string" where
  "str_int i = (if i < 0 then CHR ''-'' # str_nat (nat (- i)) else str_nat (nat i))"

text \<open>
  \<open>CharField(max_length=n)\<close>, the field a \<open>ModelSerializer\<close> builds for a
  \<open>models.CharField\<close>. Strings and numbers are accepted; surrounding whitespace is
  trimmed (\<open>trim_whitespace\<close> is on unless switched off); a blank value is refused; then
  the length and the null-character validators run.
\<close>

definition CharField_validate :: "nat \<Rightarrow> string \<Rightarrow> json + string" where
  "CharField_validate max_length s =
     (let v = strip s in
        if v = [] then Inl (detail ''This field may not be blank.'')
        else if length v > max_length then
          Inl (detail ''Ensure this field has no more characters than allowed.'')
        else if CHR 0x00 \<in> set v then Inl (detail ''Null characters are not allowed.'')
        else Inr v)"

definition CharField_to_internal_value :: "nat \<Rightarrow> json \<Rightarrow> json + string" where
  "CharField_to_internal_value max_length d =
     (case d of
        JStr s \<Rightarrow> CharField_validate max_length s
      | JInt n \<Rightarrow> CharField_validate max_length (str_int n)
      | _ \<Rightarrow> Inl (detail ''Not a valid string.''))"

definition CharField_to_representation :: "pyval \<Rightarrow> json" where
  "CharField_to_representation v = (case v of PyStr s \<Rightarrow> JStr s | _ \<Rightarrow> JNull)"

definition CharField :: "string \<Rightarrow> nat \<Rightarrow> field" where
  "CharField name max_length =
     \<lparr>field_name = name, read_only = False, write_only = False, required = True,
      to_internal_value =
        (\<lambda>d. case CharField_to_internal_value max_length d of
                Inl err \<Rightarrow> Inl err | Inr v \<Rightarrow> Inr (PyStr v)),
      to_representation = CharField_to_representation\<rparr>"

text \<open>
  The \<open>username\<close> field of the \<open>User\<close> model: a \<open>CharField(max_length=150)\<close> with the
  character rule and the uniqueness validator.
\<close>

definition username_field :: "env \<Rightarrow> db \<Rightarrow> field" where
  "username_field e s =
     (CharField ''username'' 150)
       \<lparr>to_internal_value :=
          (\<lambda>d. case CharField_to_internal_value 150 d of
                  Inl err \<Rightarrow> Inl err
                | Inr v \<Rightarrow>
                    if \<not> username_ok e v then Inl (detail ''Enter a valid username.'')
                    else if v \<in> set (map (\<lambda>(k, u). user_username u) (auth_user s)) then
                      Inl (detail ''A user with that username already exists.'')
                    else Inr (PyStr v))\<rparr>"

text \<open>The \<open>id\<close> of a model: an integer the client cannot write.\<close>

definition id_field :: field where
  "id_field =
     \<lparr>field_name = ''id'', read_only = True, write_only = False, required = False,
      to_internal_value = (\<lambda>d. Inl (detail ''read only'')),
      to_representation = (\<lambda>v. case v of PyInt n \<Rightarrow> JInt n | _ \<Rightarrow> JNull)\<rparr>"

text \<open>\<open>DecimalField(max_digits=10, decimal_places=2)\<close>.\<close>

definition DecimalField :: "env \<Rightarrow> string \<Rightarrow> field" where
  "DecimalField e name =
     \<lparr>field_name = name, read_only = False, write_only = False, required = True,
      to_internal_value =
        (\<lambda>d. case decimal_in e d of Inl err \<Rightarrow> Inl err | Inr c \<Rightarrow> Inr (PyDecimal c)),
      to_representation = (\<lambda>v. case v of PyDecimal c \<Rightarrow> decimal_out e c | _ \<Rightarrow> JNull)\<rparr>"

text \<open>
  \<open>PrimaryKeyRelatedField(queryset=Model.objects.all())\<close>, the field built for a
  foreign key: the submitted key must be the key of a row; the output is the key.
\<close>

definition pk_lookup :: "'a table \<Rightarrow> int \<Rightarrow> json + pyval" where
  "pk_lookup t n =
     (if 0 \<le> n \<and> map_of t (nat n) \<noteq> None then Inr (PyRef (nat n))
      else Inl (detail ''Invalid pk - object does not exist.''))"

definition PrimaryKeyRelatedField :: "env \<Rightarrow> string \<Rightarrow> 'a table \<Rightarrow> field" where
  "PrimaryKeyRelatedField e name queryset =
     \<lparr>field_name = name, read_only = False, write_only = False, required = True,
      to_internal_value =
        (\<lambda>d. case d of
                JInt n \<Rightarrow> pk_lookup queryset n
              | JStr t \<Rightarrow>
                  (case py_int e t of
                     None \<Rightarrow> Inl (detail ''Incorrect type. Expected pk value.'')
                   | Some n \<Rightarrow> pk_lookup queryset n)
              | _ \<Rightarrow> Inl (detail ''Incorrect type. Expected pk value.'')),
      to_representation = (\<lambda>v. case v of PyRef k \<Rightarrow> JInt (int k) | _ \<Rightarrow> JNull)\<rparr>"

text \<open>\<open>DateTimeField\<close>.\<close>

definition DateTimeField :: "env \<Rightarrow> string \<Rightarrow> field" where
  "DateTimeField e name =
     \<lparr>field_name = name, read_only = False, write_only = False, required = True,
      to_internal_value = (\<lambda>d. Inl (detail ''Datetime has wrong format.'')),
      to_representation =
        (\<lambda>v. case v of PyDateTime t \<Rightarrow> JStr (isoformat e t) | _ \<Rightarrow> JNull)\<rparr>"

subsection \<open>Validation and output of a serializer\<close>

text \<open>
  \<open>Field.run_validation\<close> on the value found under the field's name (\<open>None\<close> here when
  the key is absent): an absent value is skipped under \<open>partial=True\<close> and is an error
  for a required field otherwise; a JSON null is refused (no field here allows it).
\<close>

datatype validated = Skip | Fail json | Ok pyval

definition field_run_validation :: "bool \<Rightarrow> field \<Rightarrow> json option \<Rightarrow> validated" where
  "field_run_validation partial f d =
     (case d of
        None \<Rightarrow>
          (if partial then Skip
           else if required f then Fail (detail ''This field is required.'')
           else Skip)
      | Some JNull \<Rightarrow> Fail (detail ''This field may not be null.'')
      | Some v \<Rightarrow> (case to_internal_value f v of Inl err \<Rightarrow> Fail err | Inr x \<Rightarrow> Ok x))"

text \<open>
  \<open>Serializer.to_internal_value\<close>: every field that is not read-only is validated; the
  errors and the validated values are collected under the field names.
\<close>

fun to_internal_value_fields ::
  "bool \<Rightarrow> field list \<Rightarrow> dict \<Rightarrow> dict \<times> (string \<times> pyval) list" where
  "to_internal_value_fields partial [] d = ([], [])"
| "to_internal_value_fields partial (f # fs) d =
     (case to_internal_value_fields partial fs d of
        (errors, ret) \<Rightarrow>
          if read_only f then (errors, ret)
          else
            (case field_run_validation partial f (map_of d (field_name f)) of
               Skip \<Rightarrow> (errors, ret)
             | Fail err \<Rightarrow> ((field_name f, err) # errors, ret)
             | Ok v \<Rightarrow> (errors, (field_name f, v) # ret)))"

text \<open>\<open>is_valid()\<close>: the validated data, or the field-level errors.\<close>

definition run_validation ::
  "bool \<Rightarrow> field list \<Rightarrow> dict \<Rightarrow> json + (string \<times> pyval) list" where
  "run_validation partial fs d =
     (case to_internal_value_fields partial fs d of
        (errors, ret) \<Rightarrow> if errors = [] then Inr ret else Inl (JObj errors))"

text \<open>
  \<open>serializer.data\<close> of an instance: every field that is not write-only, with the output
  form of the instance's attribute.
\<close>

definition serializer_data :: "field list \<Rightarrow> (string \<Rightarrow> pyval) \<Rightarrow> json" where
  "serializer_data fs getattr =
     JObj (map (\<lambda>f. (field_name f, to_representation f (getattr (field_name f))))
             (filter (\<lambda>f. \<not> write_only f) fs))"

subsection \<open>Attributes of model instances\<close>

text \<open>
  An instance is a row with its primary key. The attributes read here are the declared
  fields of the model; any other name gives \<open>PyNone\<close>, and no serializer asks for one.
\<close>

definition User_getattr :: "nat \<times> user_row \<Rightarrow> string \<Rightarrow> pyval" where
  "User_getattr inst a =
     (case inst of (pk, r) \<Rightarrow>
        if a = ''id'' then PyInt (int pk)
        else if a = ''username'' then PyStr (user_username r)
        else if a = ''password'' then PyStr (user_password r)
        else PyNone)"

definition Product_getattr :: "nat \<times> product_row \<Rightarrow> string \<Rightarrow> pyval" where
  "Product_getattr inst a =
     (case inst of (pk, r) \<Rightarrow>
        if a = ''id'' then PyInt (int pk)
        else if a = ''name'' then PyStr (product_name r)
        else if a = ''price'' then PyDecimal (product_price r)
        else if a = ''user'' then PyRef (product_user r)
        else PyNone)"

definition Sale_getattr :: "nat \<times> sale_row \<Rightarrow> string \<Rightarrow> pyval" where
  "Sale_getattr inst a =
     (case inst of (pk, r) \<Rightarrow>
        if a = ''id'' then PyInt (int pk)
        else if a = ''product'' then PyRef (sale_product r)
        else if a = ''user'' then PyRef (sale_user r)
        else if a = ''sale_date'' then PyDateTime (sale_date r)
        else PyNone)"

definition as_str :: "pyval option \<Rightarrow> string option" where
  "as_str v = (case v of Some (PyStr x) \<Rightarrow> Some x | _ \<Rightarrow> None)"

definition as_decimal :: "pyval option \<Rightarrow> int option" where
  "as_decimal v = (case v of Some (PyDecimal x) \<Rightarrow> Some x | _ \<Rightarrow> None)"

definition as_ref :: "pyval option \<Rightarrow> nat option" where
  "as_ref v = (case v of Some (PyRef x) \<Rightarrow> Some x | _ \<Rightarrow> None)"

text \<open>\<open>setattr(instance, attr, value)\<close> on a product.\<close>

definition Product_setattr :: "product_row \<Rightarrow> string \<times> pyval \<Rightarrow> product_row" where
  "Product_setattr r av =
     (case av of (a, v) \<Rightarrow>
        if a = ''name'' then
          (case as_str (Some v) of Some x \<Rightarrow> r\<lparr>product_name := x\<rparr> | None \<Rightarrow> r)
        else if a = ''price'' then
          (case as_decimal (Some v) of Some x \<Rightarrow> r\<lparr>product_price := x\<rparr> | None \<Rightarrow> r)
        else if a = ''user'' then
          (case as_ref (Some v) of Some x \<Rightarrow> r\<lparr>product_user := x\<rparr> | None \<Rightarrow> r)
        else r)"

subsection \<open>The serializers of \<open>shop/serializers.py\<close>\<close>

text \<open>
  \<open>UserSerializer\<close>: fields \<open>id\<close>, \<open>username\<close>, \<open>password\<close>; \<open>extra_kwargs\<close> makes the
  password write-only. \<open>create\<close> calls \<open>User.objects.create_user\<close>, which stores the
  hash of the password.
\<close>

definition UserSerializer :: "env \<Rightarrow> db \<Rightarrow> field list" where
  "UserSerializer e s =
     [id_field, username_field e s, (CharField ''password'' 128)\<lparr>write_only := True\<rparr>]"

definition create_user ::
  "env \<Rightarrow> (string \<times> pyval) list \<Rightarrow> db \<Rightarrow> exn + ((nat \<times> user_row) \<times> db)" where
  "create_user e validated_data s =
     (case as_str (map_of validated_data ''username'') of
        None \<Rightarrow> Inl (TypeError ''create_user() missing 1 required positional argument'')
      | Some u \<Rightarrow>
          (let r = \<lparr>user_username = u,
                    user_password =
                      make_password e (as_str (map_of validated_data ''password''))\<rparr>
           in Inr ((next_pk (auth_user s), r),
                   s\<lparr>auth_user := insert_row (auth_user s) r\<rparr>)))"

text \<open>\<open>ProductSerializer\<close>: fields \<open>id\<close>, \<open>name\<close>, \<open>price\<close>, \<open>user\<close>.\<close>

definition ProductSerializer :: "env \<Rightarrow> db \<Rightarrow> field list" where
  "ProductSerializer e s =
     [id_field, CharField ''name'' 255, DecimalField e ''price'',
      PrimaryKeyRelatedField e ''user'' (auth_user s)]"

text \<open>
  \<open>ModelSerializer.create\<close> for a product: \<open>Product.objects.create(**validated_data)\<close>.
  A missing name is the empty string; a missing price or user violates \<open>NOT NULL\<close>.
\<close>

definition Product_create ::
  "(string \<times> pyval) list \<Rightarrow> db \<Rightarrow> exn + ((nat \<times> product_row) \<times> db)" where
  "Product_create validated_data s =
     (case (as_decimal (map_of validated_data ''price''),
            as_ref (map_of validated_data ''user'')) of
        (Some c, Some u) \<Rightarrow>
          (let r = \<lparr>product_name =
                      (case as_str (map_of validated_data ''name'') of
                         None \<Rightarrow> [] | Some n \<Rightarrow> n),
                    product_price = c, product_user = u\<rparr>
           in Inr ((next_pk (shop_product s), r),
                   s\<lparr>shop_product := insert_row (shop_product s) r\<rparr>))
      | _ \<Rightarrow> Inl (IntegrityError ''NOT NULL constraint failed: shop_product''))"

text \<open>
  \<open>ModelSerializer.update\<close>: each validated value is set on the instance, which is
  then saved under its primary key.
\<close>

definition Product_update ::
  "nat \<times> product_row \<Rightarrow> (string \<times> pyval) list \<Rightarrow> db \<Rightarrow> (nat \<times> product_row) \<times> db" where
  "Product_update inst validated_data s =
     (case inst of (pk, r) \<Rightarrow>
        (let r' = foldl Product_setattr r validated_data
         in ((pk, r'), s\<lparr>shop_product := update_row (shop_product s) pk r'\<rparr>)))"

text \<open>
  \<open>SaleSerializer\<close>: fields \<open>id\<close>, \<open>product\<close>, \<open>user\<close>, \<open>sale_date\<close>;
  \<open>read_only_fields\<close> names \<open>sale_date\<close>. The model sets \<open>sale_date\<close> to the current
  time when the row is inserted (\<open>auto_now_add=True\<close>), whatever was passed.
\<close>

definition SaleSerializer :: "env \<Rightarrow> db \<Rightarrow> field list" where
  "SaleSerializer e s =
     [id_field, PrimaryKeyRelatedField e ''product'' (shop_product s),
      PrimaryKeyRelatedField e ''user'' (auth_user s),
      (DateTimeField e ''sale_date'')\<lparr>read_only := True\<rparr>]"

definition Sale_create ::
  "env \<Rightarrow> (string \<times> pyval) list \<Rightarrow> db \<Rightarrow> exn + ((nat \<times> sale_row) \<times> db)" where
  "Sale_create e validated_data s =
     (case (as_ref (map_of validated_data ''product''),
            as_ref (map_of validated_data ''user'')) of
        (Some p, Some u) \<Rightarrow>
          (let r = \<lparr>sale_product = p, sale_user = u, sale_date = now e\<rparr>
           in Inr ((next_pk (shop_sale s), r),
                   s\<lparr>shop_sale := insert_row (shop_sale s) r\<rparr>))
      | _ \<Rightarrow> Inl (IntegrityError ''NOT NULL constraint failed: shop_sale''))"

section \<open>Deleting rows\<close>

text \<open>
  \<open>instance.delete()\<close> removes the row and, for every foreign key declared with
  \<open>on_delete=CASCADE\<close>, the rows that refer to it, and so on from those.
\<close>

definition Sale_delete :: "nat \<Rightarrow> db \<Rightarrow> db" where
  "Sale_delete pk s = s\<lparr>shop_sale := delete_rows (\<lambda>k r. k = pk) (shop_sale s)\<rparr>"

definition Product_delete :: "nat \<Rightarrow> db \<Rightarrow> db" where
  "Product_delete pk s =
     s\<lparr>shop_product := delete_rows (\<lambda>k r. k = pk) (shop_product s),
       shop_sale :=
         delete_rows (\<lambda>k r. fk_on_delete Sale_product = CASCADE \<and> sale_product r = pk)
           (shop_sale s)\<rparr>"

definition User_delete :: "nat \<Rightarrow> db \<Rightarrow> db" where
  "User_delete pk s =
     (let owned =
            map fst (filter (\<lambda>(k, r). fk_on_delete Product_user = CASCADE
                                        \<and> product_user r = pk) (shop_product s))
      in s\<lparr>auth_user := delete_rows (\<lambda>k r. k = pk) (auth_user s),
            shop_product := delete_rows (\<lambda>k r. k \<in> set owned) (shop_product s),
            shop_sale :=
              delete_rows
                (\<lambda>k r. (fk_on_delete Sale_user = CASCADE \<and> sale_user r = pk)
                        \<or> (fk_on_delete Sale_product = CASCADE
                             \<and> sale_product r \<in> set owned))
                (shop_sale s),
            shop_userloginlog :=
              delete_rows
                (\<lambda>k r. fk_on_delete UserLoginLog_user = CASCADE \<and> log_user r = Some pk)
                (shop_userloginlog s)\<rparr>)"

section \<open>The views of \<open>shop/views.py\<close>\<close>

text \<open>\<open>get_object_or_404(Model, pk=pk)\<close>.\<close>

definition get_object_or_404 :: "'a table \<Rightarrow> nat \<Rightarrow> exn + (nat \<times> 'a)" where
  "get_object_or_404 t pk =
     (case map_of t pk of None \<Rightarrow> Inl Http404 | Some r \<Rightarrow> Inr (pk, r))"

text \<open>
  \<open>generics.CreateAPIView\<close>: the body is validated (\<open>raise_exception=True\<close>), the
  serializer's \<open>create\<close> runs, and the new instance is returned with status 201.
\<close>

definition CreateAPIView_post ::
  "field list \<Rightarrow> ((string \<times> pyval) list \<Rightarrow> db \<Rightarrow> exn + ('i \<times> db)) \<Rightarrow>
   ('i \<Rightarrow> string \<Rightarrow> pyval) \<Rightarrow> dict \<Rightarrow> db \<Rightarrow> (exn + response) \<times> db" where
  "CreateAPIView_post serializer create getattr request_data s =
     (case run_validation False serializer request_data of
        Inl errors \<Rightarrow> (Inl (ValidationError errors), s)
      | Inr validated_data \<Rightarrow>
          (case create validated_data s of
             Inl x \<Rightarrow> (Inl x, s)
           | Inr (instance, s') \<Rightarrow>
               (Inr (Response (serializer_data serializer (getattr instance))
                       HTTP_201_CREATED), s')))"

definition UserCreateView_post :: "env \<Rightarrow> dict \<Rightarrow> db \<Rightarrow> (exn + response) \<times> db" where
  "UserCreateView_post e request_data s =
     CreateAPIView_post (UserSerializer e s) (create_user e) User_getattr request_data s"

definition ProductListView_get :: "env \<Rightarrow> db \<Rightarrow> (exn + response) \<times> db" where
  "ProductListView_get e s =
     (Inr (Response
             (JList (map (\<lambda>p. serializer_data (ProductSerializer e s) (Product_getattr p))
                       (shop_product s)))
             HTTP_200_OK), s)"

definition ProductListView_post :: "env \<Rightarrow> dict \<Rightarrow> db \<Rightarrow> (exn + response) \<times> db" where
  "ProductListView_post e request_data s =
     CreateAPIView_post (ProductSerializer e s) Product_create Product_getattr
       request_data s"

definition SaleCreateView_post :: "env \<Rightarrow> dict \<Rightarrow> db \<Rightarrow> (exn + response) \<times> db" where
  "SaleCreateView_post e request_data s =
     CreateAPIView_post (SaleSerializer e s) (Sale_create e) Sale_getattr request_data s"

text \<open>\<open>ProductDetailView\<close>.\<close>

definition ProductDetailView_get :: "env \<Rightarrow> nat \<Rightarrow> db \<Rightarrow> (exn + response) \<times> db" where
  "ProductDetailView_get e pk s =
     (case get_object_or_404 (shop_product s) pk of
        Inl x \<Rightarrow> (Inl x, s)
      | Inr product \<Rightarrow>
          (Inr (Response (serializer_data (ProductSerializer e s) (Product_getattr product))
                  HTTP_200_OK), s))"

definition ProductDetailView_put ::
  "env \<Rightarrow> nat \<Rightarrow> dict \<Rightarrow> db \<Rightarrow> (exn + response) \<times> db" where
  "ProductDetailView_put e pk request_data s =
     (case get_object_or_404 (shop_product s) pk of
        Inl x \<Rightarrow> (Inl x, s)
      | Inr product \<Rightarrow>
          (case run_validation True (ProductSerializer e s) request_data of
             Inr validated_data \<Rightarrow>
               (case Product_update product validated_data s of
                  (product', s') \<Rightarrow>
                    (Inr (Response
                            (serializer_data (ProductSerializer e s)
                               (Product_getattr product'))
                            HTTP_200_OK), s'))
           | Inl errors \<Rightarrow> (Inr (Response errors HTTP_400_BAD_REQUEST), s)))"

definition ProductDetailView_delete :: "nat \<Rightarrow> db \<Rightarrow> (exn + response) \<times> db" where
  "ProductDetailView_delete pk s =
     (case get_object_or_404 (shop_product s) pk of
        Inl x \<Rightarrow> (Inl x, s)
      | Inr product \<Rightarrow>
          (Inr (Response (JObj [(''message'', JStr ''Product deleted successfully.'')])
                  HTTP_204_NO_CONTENT),
           Product_delete (fst product) s))"

text \<open>\<open>SaleDetailView\<close>.\<close>

definition SaleDetailView_get :: "env \<Rightarrow> nat \<Rightarrow> db \<Rightarrow> (exn + response) \<times> db" where
  "SaleDetailView_get e pk s =
     (case get_object_or_404 (shop_sale s) pk of
        Inl x \<Rightarrow> (Inl x, s)
      | Inr sale \<Rightarrow>
          (Inr (Response (serializer_data (SaleSerializer e s) (Sale_getattr sale))
                  HTTP_200_OK), s))"

section \<open>Routing\<close>

text \<open>
  The exception handler of the REST framework turns \<open>Http404\<close> into a 404 response and
  a validation error into a 400 response with the errors; any other exception leaves
  the view.
\<close>

definition handle_exception :: "(exn + response) \<times> db \<Rightarrow> (exn + response) \<times> db" where
  "handle_exception out =
     (case out of
        (Inl Http404, s) \<Rightarrow>
          (Inr (Response (JObj [(''detail'', JStr ''Not found.'')]) HTTP_404_NOT_FOUND), s)
      | (Inl (ValidationError errors), s) \<Rightarrow>
          (Inr (Response errors HTTP_400_BAD_REQUEST), s)
      | _ \<Rightarrow> out)"

text \<open>The requests that \<open>shop/urls.py\<close> routes, under \<open>/api/\<close>.\<close>

datatype request =
    POST_users_create dict
  | POST_users_login dict
  | GET_products
  | POST_products dict
  | GET_product nat
  | PUT_product nat dict
  | DELETE_product nat
  | POST_sales dict
  | GET_sale nat

fun dispatch :: "env \<Rightarrow> request \<Rightarrow> db \<Rightarrow> (exn + response) \<times> db" where
  "dispatch e (POST_users_create d) s = handle_exception (UserCreateView_post e d s)"
| "dispatch e (POST_users_login d) s = handle_exception (UserLoginView_post e d s)"
| "dispatch e GET_products s = handle_exception (ProductListView_get e s)"
| "dispatch e (POST_products d) s = handle_exception (ProductListView_post e d s)"
| "dispatch e (GET_product pk) s = handle_exception (ProductDetailView_get e pk s)"
| "dispatch e (PUT_product pk d) s = handle_exception (ProductDetailView_put e pk d s)"
| "dispatch e (DELETE_product pk) s = handle_exception (ProductDetailView_delete pk s)"
| "dispatch e (POST_sales d) s = handle_exception (SaleCreateView_post e d s)"
| "dispatch e (GET_sale pk) s = handle_exception (SaleDetailView_get e pk s)"

section \<open>A sample environment and states\<close>

text \<open>
  A concrete environment to run the handlers on: one user, \<open>alice\<close> with the password
  \<open>secret\<close>; the hash is written as a tag before the raw password; prices and keys are
  read from integers only.
\<close>

definition env0 :: env where
  "env0 =
     \<lparr>authenticate =
        (\<lambda>s u p. if u = JStr ''alice'' \<and> p = JStr ''secret''
                     \<and> map_of (auth_user s) 1 \<noteq> None then Some 1 else None),
      make_password = (\<lambda>p. case p of None \<Rightarrow> ''!'' | Some raw \<Rightarrow> ''pbkdf2$'' @ raw),
      now = 1000,
      username_ok = (\<lambda>u. True),
      py_int = (\<lambda>t. None),
      decimal_in = (\<lambda>d. case d of JInt n \<Rightarrow> Inr (100 * n)
                                | _ \<Rightarrow> Inl (detail ''A valid number is required.'')),
      decimal_out = (\<lambda>c. JInt c),
      isoformat = (\<lambda>t. str_nat t)\<rparr>"

definition db_empty :: db where
  "db_empty =
     \<lparr>auth_user = [], shop_product = [], shop_sale = [], shop_userloginlog = [],
      django_session = None\<rparr>"

definition db_alice :: db where
  "db_alice =
     db_empty\<lparr>auth_user := [(1, \<lparr>user_username = ''alice'',
                                   user_password = ''pbkdf2$secret''\<rparr>)]\<rparr>"

definition db_shop :: db where
  "db_shop =
     db_alice\<lparr>shop_product := [(1, \<lparr>product_name = ''Widget'', product_price = 500,
                                      product_user = 1\<rparr>)],
              shop_sale := [(1, \<lparr>sale_product = 1, sale_user = 1, sale_date = 900\<rparr>)],
              shop_userloginlog :=
                [(1, \<lparr>log_user = Some 1, log_username = JStr ''alice'',
                       log_success = True, log_timestamp = 950\<rparr>)]\<rparr>"

section \<open>Properties of the login handler\<close>

lemma handle_exception_response:
  "handle_exception (Inr r, s) = (Inr r, s)"
  by (simp add: handle_exception_def)

lemma handle_exception_integrity:
  "handle_exception (Inl (IntegrityError m), s) = (Inl (IntegrityError m), s)"
  by (simp add: handle_exception_def)

lemma UserLoginLog_create_without_user:
  "UserLoginLog_create e None uname succ s =
     Inl (IntegrityError ''NOT NULL constraint failed: shop_userloginlog.user_id'')"
  by (simp add: UserLoginLog_create_def UserLoginLog_user_def ForeignKey_def)

lemma UserLoginLog_create_with_user:
  "UserLoginLog_create e (Some u) uname succ s =
     Inr (s\<lparr>shop_userloginlog :=
              insert_row (shop_userloginlog s)
                \<lparr>log_user = Some u, log_username = uname, log_success = succ,
                 log_timestamp = now e\<rparr>\<rparr>)"
  by (simp add: UserLoginLog_create_def)

text \<open>
  The branch of a failed credential check, for every request and state: the insert of
  the log row raises, so nothing is written and no response is returned.
\<close>

lemma login_failed_check_raises:
  assumes "truthy (dict_get d ''username'')" and "truthy (dict_get d ''password'')"
    and "authenticate e s (dict_get d ''username'') (dict_get d ''password'') = None"
  shows "dispatch e (POST_users_login d) s =
           (Inl (IntegrityError ''NOT NULL constraint failed: shop_userloginlog.user_id''), s)"
  using assms
  by (simp add: UserLoginView_post_def UserLoginLog_create_without_user
        handle_exception_integrity)

text \<open>
  The branch of a successful check, for every request and state: one log row with the
  user and \<open>success = True\<close> is appended, the session is the user's, and the answer is
  the success message with status 200.
\<close>

lemma login_success:
  assumes "truthy (dict_get d ''username'')" and "truthy (dict_get d ''password'')"
    and "authenticate e s (dict_get d ''username'') (dict_get d ''password'') = Some u"
  shows "dispatch e (POST_users_login d) s =
           (Inr (Response (JObj [(''message'', JStr ''Login successful'')]) 200),
            s\<lparr>shop_userloginlog :=
                 shop_userloginlog s @
                   [(next_pk (shop_userloginlog s),
                     \<lparr>log_user = Some u, log_username = dict_get d ''username'',
                      log_success = True, log_timestamp = now e\<rparr>)],
               django_session := Some u\<rparr>)"
  using assms
  by (simp add: UserLoginView_post_def UserLoginLog_create_with_user login_def
        insert_row_def HTTP_200_OK_def handle_exception_response)

text \<open>
  C1. A login request with both fields present whose credentials fail the check should
  append one log row without a user and with \<open>success = False\<close>, and return status 400.
  On the request of \<open>alice\<close> with a wrong password the handler instead leaves with
  \<open>IntegrityError\<close>: the log table is unchanged and no 400 response is returned.
\<close>

theorem login_wrong_password_raises:
  "dispatch env0
     (POST_users_login [(''username'', JStr ''alice''), (''password'', JStr ''wrong'')])
     db_alice =
   (Inl (IntegrityError ''NOT NULL constraint failed: shop_userloginlog.user_id''),
    db_alice)"
  by (simp add: UserLoginView_post_def UserLoginLog_create_without_user
        handle_exception_integrity dict_get_def env0_def)

text \<open>
  C2. A login request in which the username or the password is missing or empty (any
  value that Python counts as false: an absent key, null, the empty string) gets the
  400 error response, and the persistent state, the log table with it, is unchanged.
\<close>

theorem login_missing_field:
  assumes "\<not> truthy (dict_get d ''username'') \<or> \<not> truthy (dict_get d ''password'')"
  shows "dispatch e (POST_users_login d) s =
           (Inr (Response (JObj [(''error'', JStr ''Username and password are required'')])
                   400), s)"
  using assms
  by (auto simp add: UserLoginView_post_def HTTP_400_BAD_REQUEST_def
        handle_exception_response)

theorem login_missing_field_witness:
  "\<not> truthy (dict_get [(''username'', JStr ''alice'')] ''password'')
   \<and> dispatch env0 (POST_users_login [(''username'', JStr ''alice'')]) db_alice =
       (Inr (Response (JObj [(''error'', JStr ''Username and password are required'')])
               400), db_alice)
   \<and> shop_userloginlog db_alice = []"
proof -
  have h: "\<not> truthy (dict_get [(''username'', JStr ''alice'')] ''password'')"
    by (simp add: dict_get_def)
  then have "\<not> truthy (dict_get [(''username'', JStr ''alice'')] ''username'')
             \<or> \<not> truthy (dict_get [(''username'', JStr ''alice'')] ''password'')"
    by simp
  from login_missing_field [OF this, of env0 db_alice]
  have "dispatch env0 (POST_users_login [(''username'', JStr ''alice'')]) db_alice =
       (Inr (Response (JObj [(''error'', JStr ''Username and password are required'')])
               400), db_alice)" .
  moreover have "shop_userloginlog db_alice = []"
    by (simp add: db_alice_def db_empty_def)
  ultimately show ?thesis using h by simp
qed

text \<open>
  C3. A successful login appends one log row with the user and \<open>success = True\<close>,
  sets the session and returns status 200, as the first equation shows for \<open>alice\<close>;
  and every branch but the one for missing fields should write one log row. The
  branch of a failed check writes none: for an unknown user the log table stays empty
  and the handler leaves with \<open>IntegrityError\<close>.
\<close>

theorem login_branches_log_rows:
  "dispatch env0
     (POST_users_login [(''username'', JStr ''alice''), (''password'', JStr ''secret'')])
     db_alice =
   (Inr (Response (JObj [(''message'', JStr ''Login successful'')]) 200),
    db_alice\<lparr>shop_userloginlog :=
               [(1, \<lparr>log_user = Some 1, log_username = JStr ''alice'',
                      log_success = True, log_timestamp = 1000\<rparr>)],
             django_session := Some 1\<rparr>)
   \<and> fst (dispatch env0
        (POST_users_login [(''username'', JStr ''mallory''), (''password'', JStr ''guess'')])
        db_alice) =
       Inl (IntegrityError ''NOT NULL constraint failed: shop_userloginlog.user_id'')
   \<and> shop_userloginlog (snd (dispatch env0
        (POST_users_login [(''username'', JStr ''mallory''), (''password'', JStr ''guess'')])
        db_alice)) = []"
  by (simp add: UserLoginView_post_def UserLoginLog_create_without_user
        UserLoginLog_create_with_user handle_exception_integrity handle_exception_response
        dict_get_def env0_def db_alice_def db_empty_def login_def insert_row_def
        next_pk_def HTTP_200_OK_def)

section \<open>Tables\<close>

lemma fold_max_ge: "(m::nat) \<le> fold max xs m"
  by (induction xs arbitrary: m) (auto intro: order_trans [OF max.cobounded2])

lemma fold_max_mem: "(x::nat) \<in> set xs \<Longrightarrow> x \<le> fold max xs m"
proof (induction xs arbitrary: m)
  case Nil
  then show ?case by simp
next
  case (Cons y ys)
  show ?case
  proof (cases "x = y")
    case True
    have "max y m \<le> fold max ys (max y m)" by (rule fold_max_ge)
    with True show ?thesis by simp
  next
    case False
    with Cons show ?thesis by simp
  qed
qed

lemma next_pk_greater: "k \<in> fst ` set t \<Longrightarrow> k < next_pk t"
  using fold_max_mem [of k "map fst t" 0] by (simp add: next_pk_def less_Suc_eq_le)

lemma next_pk_fresh: "map_of t (next_pk t) = None"
  using next_pk_greater [of "next_pk t" t] by (auto simp: map_of_eq_None_iff)

lemma map_of_insert_row_new: "map_of (insert_row t r) (next_pk t) = Some r"
  by (simp add: insert_row_def map_add_def next_pk_fresh)

lemma map_of_update_row_same:
  "map_of t pk = Some r \<Longrightarrow> map_of (update_row t pk r') pk = Some r'"
  by (induction t) (auto simp: update_row_def split: if_splits)

lemma map_of_update_row_other:
  "k \<noteq> pk \<Longrightarrow> map_of (update_row t pk r') k = map_of t k"
  by (induction t) (auto simp: update_row_def)

lemma map_of_delete_pk: "map_of (delete_rows (\<lambda>k r. k = pk) t) pk = None"
  by (induction t) (auto simp: delete_rows_def)

lemma map_of_delete_other:
  "k \<noteq> pk \<Longrightarrow> map_of (delete_rows (\<lambda>k r. k = pk) t) k = map_of t k"
  by (induction t) (auto simp: delete_rows_def)

section \<open>Deleting a product\<close>

lemma handle_exception_404:
  "handle_exception (Inl Http404, s) =
     (Inr (Response (JObj [(''detail'', JStr ''Not found.'')]) 404), s)"
  by (simp add: handle_exception_def HTTP_404_NOT_FOUND_def)

lemma get_product_absent:
  "map_of (shop_product s) pk = None \<Longrightarrow>
   dispatch e (GET_product pk) s =
     (Inr (Response (JObj [(''detail'', JStr ''Not found.'')]) 404), s)"
  by (simp add: ProductDetailView_get_def get_object_or_404_def handle_exception_404)

lemma delete_product_absent:
  "map_of (shop_product s) pk = None \<Longrightarrow>
   dispatch e (DELETE_product pk) s =
     (Inr (Response (JObj [(''detail'', JStr ''Not found.'')]) 404), s)"
  by (simp add: ProductDetailView_delete_def get_object_or_404_def handle_exception_404)

lemma delete_product_present:
  "map_of (shop_product s) pk = Some r \<Longrightarrow>
   dispatch e (DELETE_product pk) s =
     (Inr (Response (JObj [(''message'', JStr ''Product deleted successfully.'')]) 204),
      Product_delete pk s)"
  by (simp add: ProductDetailView_delete_def get_object_or_404_def
        handle_exception_response HTTP_204_NO_CONTENT_def)

lemma shop_product_Product_delete:
  "shop_product (Product_delete pk s) = delete_rows (\<lambda>k r. k = pk) (shop_product s)"
  by (simp add: Product_delete_def)

text \<open>
  C4, as amended. For every product id: when no product has the id, DELETE answers 404
  and leaves the state as it is; when one has, DELETE answers 204 with the message
  \<open>Product deleted successfully.\<close> as response data (not an empty body), the row is
  removed, the other products are kept, and a GET of the same id then answers 404.
\<close>

theorem product_delete_contract:
  "(map_of (shop_product s) pk = None \<longrightarrow>
      dispatch e (DELETE_product pk) s =
        (Inr (Response (JObj [(''detail'', JStr ''Not found.'')]) 404), s))
   \<and> (map_of (shop_product s) pk \<noteq> None \<longrightarrow>
      dispatch e (DELETE_product pk) s =
        (Inr (Response (JObj [(''message'', JStr ''Product deleted successfully.'')]) 204),
         Product_delete pk s)
      \<and> map_of (shop_product (Product_delete pk s)) pk = None
      \<and> (\<forall>k. k \<noteq> pk \<longrightarrow>
            map_of (shop_product (Product_delete pk s)) k = map_of (shop_product s) k)
      \<and> dispatch e (GET_product pk) (Product_delete pk s) =
          (Inr (Response (JObj [(''detail'', JStr ''Not found.'')]) 404),
           Product_delete pk s))"
proof (intro conjI impI)
  assume "map_of (shop_product s) pk = None"
  then show "dispatch e (DELETE_product pk) s =
        (Inr (Response (JObj [(''detail'', JStr ''Not found.'')]) 404), s)"
    by (rule delete_product_absent)
next
  assume "map_of (shop_product s) pk \<noteq> None"
  then obtain r where "map_of (shop_product s) pk = Some r" by auto
  then show "dispatch e (DELETE_product pk) s =
        (Inr (Response (JObj [(''message'', JStr ''Product deleted successfully.'')]) 204),
         Product_delete pk s)"
    by (rule delete_product_present)
next
  show gone: "map_of (shop_product (Product_delete pk s)) pk = None"
    by (simp add: shop_product_Product_delete map_of_delete_pk)
  show "dispatch e (GET_product pk) (Product_delete pk s) =
          (Inr (Response (JObj [(''detail'', JStr ''Not found.'')]) 404),
           Product_delete pk s)"
    using gone by (rule get_product_absent)
next
  show "\<forall>k. k \<noteq> pk \<longrightarrow>
            map_of (shop_product (Product_delete pk s)) k = map_of (shop_product s) k"
    by (simp add: shop_product_Product_delete map_of_delete_other)
qed

theorem product_delete_contract_witness:
  "map_of (shop_product db_shop) 2 = None
   \<and> dispatch env0 (DELETE_product 2) db_shop =
        (Inr (Response (JObj [(''detail'', JStr ''Not found.'')]) 404), db_shop)
   \<and> map_of (shop_product db_shop) 1 \<noteq> None
   \<and> dispatch env0 (DELETE_product 1) db_shop =
        (Inr (Response (JObj [(''message'', JStr ''Product deleted successfully.'')]) 204),
         Product_delete 1 db_shop)
   \<and> shop_product (Product_delete 1 db_shop) = []
   \<and> dispatch env0 (GET_product 1) (Product_delete 1 db_shop) =
          (Inr (Response (JObj [(''detail'', JStr ''Not found.'')]) 404),
           Product_delete 1 db_shop)"
proof -
  have a: "map_of (shop_product db_shop) 2 = None"
    by (simp add: db_shop_def db_alice_def db_empty_def)
  have b: "map_of (shop_product db_shop) 1 \<noteq> None"
    by (simp add: db_shop_def db_alice_def db_empty_def)
  have c: "shop_product (Product_delete 1 db_shop) = []"
    by (simp add: Product_delete_def delete_rows_def db_shop_def db_alice_def db_empty_def)
  from a b c product_delete_contract [of db_shop 2 env0]
    product_delete_contract [of db_shop 1 env0]
  show ?thesis by simp
qed

text \<open>
  C4 as stated fails on the response body: the handler passes a message as the data of
  its 204 response.
\<close>

theorem product_delete_body_not_empty:
  "fst (dispatch env0 (DELETE_product 1) db_shop) =
     Inr (Response (JObj [(''message'', JStr ''Product deleted successfully.'')]) 204)
   \<and> data (Response (JObj [(''message'', JStr ''Product deleted successfully.'')]) 204)
       \<noteq> JNull"
  by (simp add: ProductDetailView_delete_def get_object_or_404_def
        handle_exception_response HTTP_204_NO_CONTENT_def db_shop_def db_alice_def
        db_empty_def)


section \<open>Updating a product\<close>

lemma errors_keys_mem:
  "(a, v) \<in> set (fst (to_internal_value_fields partial fs d)) \<Longrightarrow>
   \<exists>f \<in> set fs. \<not> read_only f \<and> field_name f = a"
  by (induction fs) (auto split: prod.splits validated.splits if_splits)

lemma errors_keys:
  "fst ` set (fst (to_internal_value_fields partial fs d))
     \<subseteq> field_name ` {f \<in> set fs. \<not> read_only f}"
  using errors_keys_mem by fastforce

lemma field_run_validation_absent:
  "field_run_validation True f None = Skip"
  by (simp add: field_run_validation_def)

lemma partial_keys_supplied:
  "(a, v) \<in> set (snd (to_internal_value_fields True fs d)) \<Longrightarrow> map_of d a \<noteq> None"
proof (induction fs)
  case Nil
  then show ?case by simp
next
  case (Cons f fs)
  show ?case
  proof (cases "map_of d (field_name f)")
    case None
    with Cons show ?thesis
      by (auto simp: field_run_validation_absent split: prod.splits if_splits)
  next
    case (Some y)
    with Cons show ?thesis
      by (auto split: prod.splits if_splits validated.splits)
  qed
qed

lemma ProductSerializer_writable:
  "f \<in> set (ProductSerializer e s) \<Longrightarrow> \<not> read_only f \<Longrightarrow>
   field_name f \<in> {''name'', ''price'', ''user''}"
  by (auto simp: ProductSerializer_def id_field_def CharField_def DecimalField_def
        PrimaryKeyRelatedField_def)

lemma run_validation_errors:
  assumes "run_validation partial fs d = Inl errors"
  shows "\<exists>l. errors = JObj l \<and> l \<noteq> []
           \<and> fst ` set l \<subseteq> field_name ` {f \<in> set fs. \<not> read_only f}"
proof -
  obtain errs ret where tv: "to_internal_value_fields partial fs d = (errs, ret)"
    by (cases "to_internal_value_fields partial fs d")
  with assms have "errors = JObj errs" and "errs \<noteq> []"
    by (auto simp: run_validation_def split: if_splits)
  moreover have "fst ` set errs \<subseteq> field_name ` {f \<in> set fs. \<not> read_only f}"
    using errors_keys [of partial fs d] tv by simp
  ultimately show ?thesis by blast
qed

text \<open>
  C10. For every existing product and every PUT body that fails the serializer's
  validation, the handler answers 400 with the errors, which are keyed by the names of
  the fields \<open>name\<close>, \<open>price\<close>, \<open>user\<close>, and the whole state, the product row with it,
  is as before.
\<close>

theorem product_put_invalid:
  assumes "map_of (shop_product s) pk = Some r"
    and "run_validation True (ProductSerializer e s) d = Inl errors"
  shows "dispatch e (PUT_product pk d) s = (Inr (Response errors 400), s)
         \<and> (\<exists>l. errors = JObj l \<and> l \<noteq> []
                \<and> fst ` set l \<subseteq> {''name'', ''price'', ''user''})"
proof
  show "dispatch e (PUT_product pk d) s = (Inr (Response errors 400), s)"
    using assms
    by (simp add: ProductDetailView_put_def get_object_or_404_def
          handle_exception_response HTTP_400_BAD_REQUEST_def)
  show "\<exists>l. errors = JObj l \<and> l \<noteq> [] \<and> fst ` set l \<subseteq> {''name'', ''price'', ''user''}"
  proof -
    from run_validation_errors [OF assms(2)] obtain l where
      l: "errors = JObj l" "l \<noteq> []"
         "fst ` set l \<subseteq> field_name ` {f \<in> set (ProductSerializer e s). \<not> read_only f}"
      by blast
    have "field_name ` {f \<in> set (ProductSerializer e s). \<not> read_only f}
            \<subseteq> {''name'', ''price'', ''user''}"
      using ProductSerializer_writable [of _ e s] by blast
    with l show ?thesis by blast
  qed
qed

lemma put_invalid_example:
  "run_validation True (ProductSerializer env0 db_shop)
     [(''price'', JStr ''cheap''), (''name'', JStr ''Gadget'')] =
   Inl (JObj [(''price'', JList [JStr ''A valid number is required.''])])"
  by code_simp

theorem product_put_invalid_witness:
  "map_of (shop_product db_shop) 1 =
     Some \<lparr>product_name = ''Widget'', product_price = 500, product_user = 1\<rparr>
   \<and> run_validation True (ProductSerializer env0 db_shop)
        [(''price'', JStr ''cheap''), (''name'', JStr ''Gadget'')] =
       Inl (JObj [(''price'', JList [JStr ''A valid number is required.''])])
   \<and> dispatch env0
        (PUT_product 1 [(''price'', JStr ''cheap''), (''name'', JStr ''Gadget'')]) db_shop =
       (Inr (Response (JObj [(''price'', JList [JStr ''A valid number is required.''])]) 400),
        db_shop)"
proof -
  have a: "map_of (shop_product db_shop) 1 =
     Some \<lparr>product_name = ''Widget'', product_price = 500, product_user = 1\<rparr>"
    by code_simp
  from product_put_invalid [OF a put_invalid_example] a put_invalid_example
  show ?thesis by blast
qed

lemma setattr_keeps_name:
  "a \<noteq> ''name'' \<Longrightarrow> product_name (Product_setattr r (a, v)) = product_name r"
  by (simp add: Product_setattr_def split: option.splits)

lemma setattr_keeps_price:
  "a \<noteq> ''price'' \<Longrightarrow> product_price (Product_setattr r (a, v)) = product_price r"
  by (simp add: Product_setattr_def split: option.splits)

lemma setattr_keeps_user:
  "a \<noteq> ''user'' \<Longrightarrow> product_user (Product_setattr r (a, v)) = product_user r"
  by (simp add: Product_setattr_def split: option.splits)

lemma foldl_setattr_name:
  "''name'' \<notin> fst ` set vd \<Longrightarrow>
   product_name (foldl Product_setattr r vd) = product_name r"
proof (induction vd arbitrary: r)
  case Nil
  then show ?case by simp
next
  case (Cons av vd)
  obtain a v where av: "av = (a, v)" by (cases av)
  with Cons.prems have "a \<noteq> ''name''" and "''name'' \<notin> fst ` set vd" by auto
  then show ?case using Cons.IH [of "Product_setattr r (a, v)"] av
    by (simp add: setattr_keeps_name)
qed

lemma foldl_setattr_price:
  "''price'' \<notin> fst ` set vd \<Longrightarrow>
   product_price (foldl Product_setattr r vd) = product_price r"
proof (induction vd arbitrary: r)
  case Nil
  then show ?case by simp
next
  case (Cons av vd)
  obtain a v where av: "av = (a, v)" by (cases av)
  with Cons.prems have "a \<noteq> ''price''" and "''price'' \<notin> fst ` set vd" by auto
  then show ?case using Cons.IH [of "Product_setattr r (a, v)"] av
    by (simp add: setattr_keeps_price)
qed

lemma foldl_setattr_user:
  "''user'' \<notin> fst ` set vd \<Longrightarrow>
   product_user (foldl Product_setattr r vd) = product_user r"
proof (induction vd arbitrary: r)
  case Nil
  then show ?case by simp
next
  case (Cons av vd)
  obtain a v where av: "av = (a, v)" by (cases av)
  with Cons.prems have "a \<noteq> ''user''" and "''user'' \<notin> fst ` set vd" by auto
  then show ?case using Cons.IH [of "Product_setattr r (a, v)"] av
    by (simp add: setattr_keeps_user)
qed

lemma run_validation_partial_keys:
  assumes "run_validation True fs d = Inr vd" and "map_of d a = None"
  shows "a \<notin> fst ` set vd"
proof
  assume "a \<in> fst ` set vd"
  then obtain v where "(a, v) \<in> set vd" by auto
  moreover from assms(1) have "vd = snd (to_internal_value_fields True fs d)"
    by (auto simp: run_validation_def split: prod.splits if_splits)
  ultimately have "map_of d a \<noteq> None" using partial_keys_supplied by blast
  with assms(2) show False by simp
qed

text \<open>What a PUT does to the state, in its two outcomes.\<close>

lemma put_product_state:
  assumes "map_of (shop_product s) pk = Some r"
  shows "(\<exists>errors. run_validation True (ProductSerializer e s) d = Inl errors
            \<and> dispatch e (PUT_product pk d) s = (Inr (Response errors 400), s))
         \<or> (\<exists>vd. run_validation True (ProductSerializer e s) d = Inr vd
            \<and> snd (dispatch e (PUT_product pk d) s) =
                s\<lparr>shop_product :=
                     update_row (shop_product s) pk (foldl Product_setattr r vd)\<rparr>
            \<and> fst (dispatch e (PUT_product pk d) s) =
                Inr (Response
                       (serializer_data (ProductSerializer e s)
                          (Product_getattr (pk, foldl Product_setattr r vd))) 200))"
proof (cases "run_validation True (ProductSerializer e s) d")
  case (Inl errors)
  with assms show ?thesis
    by (simp add: ProductDetailView_put_def get_object_or_404_def
          handle_exception_response HTTP_400_BAD_REQUEST_def)
next
  case (Inr vd)
  with assms show ?thesis
    by (simp add: ProductDetailView_put_def get_object_or_404_def Product_update_def
          handle_exception_response HTTP_200_OK_def Let_def)
qed

lemma price_only_validated:
  assumes "v \<noteq> JNull" and "decimal_in e v = Inr c"
  shows "run_validation True (ProductSerializer e s) [(''price'', v)]
           = Inr [(''price'', PyDecimal c)]"
  using assms
  by (cases v)
     (simp_all add: run_validation_def ProductSerializer_def id_field_def CharField_def
        DecimalField_def PrimaryKeyRelatedField_def field_run_validation_def)

text \<open>
  C5. For every existing product and every PUT body, the product is still there after
  the request, each of \<open>name\<close>, \<open>price\<close>, \<open>user\<close> that the body does not supply has its
  previous value, a body with only a price that the decimal field accepts yields the
  old row with the new price, and no other product changes.
\<close>

theorem product_put_partial:
  assumes "map_of (shop_product s) pk = Some r"
  shows "map_of (shop_product (snd (dispatch e (PUT_product pk d) s))) pk \<noteq> None
         \<and> (\<forall>r'. map_of (shop_product (snd (dispatch e (PUT_product pk d) s))) pk = Some r'
              \<longrightarrow> (map_of d ''name'' = None \<longrightarrow> product_name r' = product_name r)
                \<and> (map_of d ''price'' = None \<longrightarrow> product_price r' = product_price r)
                \<and> (map_of d ''user'' = None \<longrightarrow> product_user r' = product_user r)
                \<and> (\<forall>v c. d = [(''price'', v)] \<and> v \<noteq> JNull \<and> decimal_in e v = Inr c
                      \<longrightarrow> r' = r\<lparr>product_price := c\<rparr>))
         \<and> (\<forall>k. k \<noteq> pk \<longrightarrow>
                map_of (shop_product (snd (dispatch e (PUT_product pk d) s))) k
                  = map_of (shop_product s) k)"
proof -
  let ?after = "shop_product (snd (dispatch e (PUT_product pk d) s))"
  from put_product_state [OF assms, of e d] show ?thesis
  proof (elim disjE exE conjE)
    fix errors
    assume inv: "run_validation True (ProductSerializer e s) d = Inl errors"
      and "dispatch e (PUT_product pk d) s = (Inr (Response errors 400), s)"
    then have st: "?after = shop_product s" by simp
    have p: "\<And>v c. d = [(''price'', v)] \<Longrightarrow> v \<noteq> JNull \<Longrightarrow> decimal_in e v = Inr c
               \<Longrightarrow> False"
    proof -
      fix v c
      assume "d = [(''price'', v)]" "v \<noteq> JNull" "decimal_in e v = Inr c"
      with inv price_only_validated [of v e c s] show False by simp
    qed
    show ?thesis
    proof (intro conjI allI impI)
      show "map_of ?after pk \<noteq> None" using st assms by simp
    next
      fix r' assume "map_of ?after pk = Some r'"
      with st assms have e: "r' = r" by simp
      { assume "map_of d ''name'' = None"
        show "product_name r' = product_name r" using e by simp }
      { assume "map_of d ''price'' = None"
        show "product_price r' = product_price r" using e by simp }
      { assume "map_of d ''user'' = None"
        show "product_user r' = product_user r" using e by simp }
      { fix v c assume "d = [(''price'', v)] \<and> v \<noteq> JNull \<and> decimal_in e v = Inr c"
        then show "r' = r\<lparr>product_price := c\<rparr>" using p by blast }
    next
      fix k assume "k \<noteq> pk"
      show "map_of ?after k = map_of (shop_product s) k" using st by simp
    qed
  next
    fix vd
    assume ok: "run_validation True (ProductSerializer e s) d = Inr vd"
      and st0: "snd (dispatch e (PUT_product pk d) s) =
                  s\<lparr>shop_product :=
                       update_row (shop_product s) pk (foldl Product_setattr r vd)\<rparr>"
    let ?r' = "foldl Product_setattr r vd"
    have st: "?after = update_row (shop_product s) pk ?r'" using st0 by simp
    have 1: "map_of ?after pk = Some ?r'"
      using st assms by (simp add: map_of_update_row_same)
    have 2: "map_of d ''name'' = None \<Longrightarrow> product_name ?r' = product_name r"
      using run_validation_partial_keys [OF ok, of "''name''"]
      by (simp add: foldl_setattr_name)
    have 3: "map_of d ''price'' = None \<Longrightarrow> product_price ?r' = product_price r"
      using run_validation_partial_keys [OF ok, of "''price''"]
      by (simp add: foldl_setattr_price)
    have 4: "map_of d ''user'' = None \<Longrightarrow> product_user ?r' = product_user r"
      using run_validation_partial_keys [OF ok, of "''user''"]
      by (simp add: foldl_setattr_user)
    have 5: "?r' = r\<lparr>product_price := c\<rparr>"
      if "d = [(''price'', v)]" "v \<noteq> JNull" "decimal_in e v = Inr c" for v c
    proof -
      from that ok price_only_validated [of v e c s] have "vd = [(''price'', PyDecimal c)]"
        by simp
      then show ?thesis by (simp add: Product_setattr_def as_decimal_def)
    qed
    have 6: "map_of ?after k = map_of (shop_product s) k" if "k \<noteq> pk" for k
      using st that by (simp add: map_of_update_row_other)
    show ?thesis
    proof (intro conjI allI impI)
      show "map_of ?after pk \<noteq> None" using 1 by simp
    next
      fix r' assume "map_of ?after pk = Some r'"
      with 1 have e: "r' = ?r'" by simp
      { assume "map_of d ''name'' = None"
        then show "product_name r' = product_name r" using 2 e by simp }
      { assume "map_of d ''price'' = None"
        then show "product_price r' = product_price r" using 3 e by simp }
      { assume "map_of d ''user'' = None"
        then show "product_user r' = product_user r" using 4 e by simp }
      { fix v c assume "d = [(''price'', v)] \<and> v \<noteq> JNull \<and> decimal_in e v = Inr c"
        then show "r' = r\<lparr>product_price := c\<rparr>" using 5 e by simp }
    next
      fix k assume "k \<noteq> pk"
      then show "map_of ?after k = map_of (shop_product s) k" by (rule 6)
    qed
  qed
qed

theorem product_put_partial_witness:
  "map_of (shop_product db_shop) 1 =
     Some \<lparr>product_name = ''Widget'', product_price = 500, product_user = 1\<rparr>
   \<and> map_of (shop_product (snd (dispatch env0 (PUT_product 1 [(''price'', JInt 7)]) db_shop))) 1 =
     Some \<lparr>product_name = ''Widget'', product_price = 700, product_user = 1\<rparr>"
proof -
  let ?r = "\<lparr>product_name = ''Widget'', product_price = 500, product_user = 1\<rparr>"
  let ?after = "shop_product (snd (dispatch env0 (PUT_product 1 [(''price'', JInt 7)]) db_shop))"
  have a: "map_of (shop_product db_shop) 1 = Some ?r"
    by code_simp
  have dec: "decimal_in env0 (JInt 7) = Inr 700"
    by (simp add: env0_def)
  note t = product_put_partial [OF a, of env0 "[(''price'', JInt 7)]"]
  from t have "map_of ?after 1 \<noteq> None" by blast
  then obtain r' where r': "map_of ?after 1 = Some r'" by blast
  with t dec have "r' = ?r\<lparr>product_price := 700\<rparr>" by blast
  with r' a show ?thesis by simp
qed


section \<open>The effect of a request on the state\<close>

lemma snd_handle_exception: "snd (handle_exception out) = snd out"
  by (cases out) (auto simp: handle_exception_def split: sum.splits exn.splits)

lemma CreateAPIView_post_state:
  "snd (CreateAPIView_post ser create getattr d s) = s
   \<or> (\<exists>vd inst. create vd s = Inr (inst, snd (CreateAPIView_post ser create getattr d s)))"
  by (auto simp: CreateAPIView_post_def split: sum.splits prod.splits)

lemma create_user_state:
  "create_user e vd s = Inr (inst, s') \<Longrightarrow>
   \<exists>r. s' = s\<lparr>auth_user := insert_row (auth_user s) r\<rparr>"
  by (auto simp: create_user_def Let_def split: option.splits)

lemma Product_create_state:
  "Product_create vd s = Inr (inst, s') \<Longrightarrow>
   \<exists>r. s' = s\<lparr>shop_product := insert_row (shop_product s) r\<rparr>"
  by (auto simp: Product_create_def Let_def split: option.splits)

lemma Sale_create_state:
  "Sale_create e vd s = Inr (inst, s') \<Longrightarrow>
   \<exists>p u. s' = s\<lparr>shop_sale :=
                    shop_sale s @ [(next_pk (shop_sale s),
                      \<lparr>sale_product = p, sale_user = u, sale_date = now e\<rparr>)]\<rparr>"
  by (auto simp: Sale_create_def Let_def insert_row_def split: option.splits)

lemma UserLoginView_post_state:
  "snd (UserLoginView_post e d s) = s
   \<or> (\<exists>r u. snd (UserLoginView_post e d s) =
          s\<lparr>shop_userloginlog := shop_userloginlog s @ [(next_pk (shop_userloginlog s), r)],
            django_session := Some u\<rparr>)"
  by (auto simp: UserLoginView_post_def UserLoginLog_create_without_user
        UserLoginLog_create_with_user login_def insert_row_def Let_def
        split: option.splits)

lemma ProductDetailView_put_state:
  "snd (ProductDetailView_put e pk d s) = s
   \<or> (\<exists>t. snd (ProductDetailView_put e pk d s) = s\<lparr>shop_product := t\<rparr>)"
  by (auto simp: ProductDetailView_put_def Product_update_def Let_def
        split: sum.splits prod.splits)

lemma ProductDetailView_delete_state:
  "snd (ProductDetailView_delete pk d) = d
   \<or> snd (ProductDetailView_delete pk d) = Product_delete pk d"
  by (auto simp: ProductDetailView_delete_def get_object_or_404_def
        split: sum.splits option.splits)

text \<open>The log table after any routed request: as before, or with one more row.\<close>

lemma dispatch_log_rows:
  "shop_userloginlog (snd (dispatch e rq s)) = shop_userloginlog s
   \<or> (\<exists>r. shop_userloginlog (snd (dispatch e rq s)) =
          shop_userloginlog s @ [(next_pk (shop_userloginlog s), r)])"
proof (cases rq)
  case (POST_users_create d)
  then show ?thesis
    using CreateAPIView_post_state [of "UserSerializer e s" "create_user e" User_getattr d s]
    by (auto simp: snd_handle_exception UserCreateView_post_def dest!: create_user_state)
next
  case (POST_users_login d)
  then show ?thesis
    using UserLoginView_post_state [of e d s] by (auto simp: snd_handle_exception)
next
  case GET_products
  then show ?thesis by (simp add: snd_handle_exception ProductListView_get_def)
next
  case (POST_products d)
  then show ?thesis
    using CreateAPIView_post_state [of "ProductSerializer e s" Product_create Product_getattr d s]
    by (auto simp: snd_handle_exception ProductListView_post_def dest!: Product_create_state)
next
  case (GET_product pk)
  then show ?thesis
    by (simp add: snd_handle_exception ProductDetailView_get_def split: sum.splits)
next
  case (PUT_product pk d)
  then show ?thesis
    using ProductDetailView_put_state [of e pk d s] by (auto simp: snd_handle_exception)
next
  case (DELETE_product pk)
  then show ?thesis
    using ProductDetailView_delete_state [of pk s]
    by (auto simp: snd_handle_exception Product_delete_def)
next
  case (POST_sales d)
  then show ?thesis
    using CreateAPIView_post_state [of "SaleSerializer e s" "Sale_create e" Sale_getattr d s]
    by (auto simp: snd_handle_exception SaleCreateView_post_def dest!: Sale_create_state)
next
  case (GET_sale pk)
  then show ?thesis
    by (simp add: snd_handle_exception SaleDetailView_get_def split: sum.splits)
qed

text \<open>The sale table after any routed request.\<close>

lemma dispatch_sale_rows:
  "shop_sale (snd (dispatch e rq s)) = shop_sale s
   \<or> (\<exists>pk. shop_sale (snd (dispatch e rq s)) =
          delete_rows (\<lambda>k r. sale_product r = pk) (shop_sale s))
   \<or> (\<exists>p u. shop_sale (snd (dispatch e rq s)) =
          shop_sale s @ [(next_pk (shop_sale s),
                          \<lparr>sale_product = p, sale_user = u, sale_date = now e\<rparr>)])"
proof (cases rq)
  case (POST_users_create d)
  then show ?thesis
    using CreateAPIView_post_state [of "UserSerializer e s" "create_user e" User_getattr d s]
    by (auto simp: snd_handle_exception UserCreateView_post_def dest!: create_user_state)
next
  case (POST_users_login d)
  then show ?thesis
    using UserLoginView_post_state [of e d s] by (auto simp: snd_handle_exception)
next
  case GET_products
  then show ?thesis by (simp add: snd_handle_exception ProductListView_get_def)
next
  case (POST_products d)
  then show ?thesis
    using CreateAPIView_post_state [of "ProductSerializer e s" Product_create Product_getattr d s]
    by (auto simp: snd_handle_exception ProductListView_post_def dest!: Product_create_state)
next
  case (GET_product pk)
  then show ?thesis
    by (simp add: snd_handle_exception ProductDetailView_get_def split: sum.splits)
next
  case (PUT_product pk d)
  then show ?thesis
    using ProductDetailView_put_state [of e pk d s] by (auto simp: snd_handle_exception)
next
  case (DELETE_product pk)
  then show ?thesis
    using ProductDetailView_delete_state [of pk s]
    by (auto simp: snd_handle_exception Product_delete_def Sale_product_def ForeignKey_def)
next
  case (POST_sales d)
  then show ?thesis
    using CreateAPIView_post_state [of "SaleSerializer e s" "Sale_create e" Sale_getattr d s]
    by (auto simp: snd_handle_exception SaleCreateView_post_def dest!: Sale_create_state)
next
  case (GET_sale pk)
  then show ?thesis
    by (simp add: snd_handle_exception SaleDetailView_get_def split: sum.splits)
qed

section \<open>The login log and the sales over time\<close>

text \<open>
  C9, as amended. No routed request updates or deletes a row of the login log: after
  any request the table is as before or has one more row at its end. Deleting a
  product or a sale leaves the table as it is. Deleting a user removes the log rows
  that refer to that user (\<open>on_delete=CASCADE\<close>) and keeps all the others.
\<close>

theorem login_log_kept:
  "(shop_userloginlog (snd (dispatch e rq s)) = shop_userloginlog s
      \<or> (\<exists>r. shop_userloginlog (snd (dispatch e rq s)) =
             shop_userloginlog s @ [(next_pk (shop_userloginlog s), r)]))
   \<and> shop_userloginlog (Product_delete pk s) = shop_userloginlog s
   \<and> shop_userloginlog (Sale_delete pk s) = shop_userloginlog s
   \<and> shop_userloginlog (User_delete pk s) =
       filter (\<lambda>(k, r). log_user r \<noteq> Some pk) (shop_userloginlog s)"
proof (intro conjI)
  show "shop_userloginlog (snd (dispatch e rq s)) = shop_userloginlog s
      \<or> (\<exists>r. shop_userloginlog (snd (dispatch e rq s)) =
             shop_userloginlog s @ [(next_pk (shop_userloginlog s), r)])"
    by (rule dispatch_log_rows)
  show "shop_userloginlog (Product_delete pk s) = shop_userloginlog s"
    by (simp add: Product_delete_def)
  show "shop_userloginlog (Sale_delete pk s) = shop_userloginlog s"
    by (simp add: Sale_delete_def)
  show "shop_userloginlog (User_delete pk s) =
       filter (\<lambda>(k, r). log_user r \<noteq> Some pk) (shop_userloginlog s)"
    by (simp add: User_delete_def Let_def delete_rows_def UserLoginLog_user_def
          ForeignKey_def)
qed

text \<open>
  C9 as stated fails for the delete of a user: the log row of the login of \<open>alice\<close>
  is deleted with the user.
\<close>

theorem user_delete_removes_log_rows:
  "shop_userloginlog db_shop =
     [(1, \<lparr>log_user = Some 1, log_username = JStr ''alice'', log_success = True,
            log_timestamp = 950\<rparr>)]
   \<and> shop_userloginlog (User_delete 1 db_shop) = []"
  by code_simp

lemma sale_validation_reads:
  assumes "map_of d ''product'' = map_of d' ''product''"
    and "map_of d ''user'' = map_of d' ''user''"
  shows "run_validation False (SaleSerializer e s) d
           = run_validation False (SaleSerializer e s) d'"
  using assms
  by (simp add: run_validation_def SaleSerializer_def id_field_def DateTimeField_def
        PrimaryKeyRelatedField_def)

text \<open>
  C6. Two sale-creation bodies that agree on \<open>product\<close> and \<open>user\<close> have the same
  effect and answer, whatever else they carry, a \<open>sale_date\<close> included. After any
  routed request the sale table is as before, or lost the sales of a deleted product,
  or has one more row whose \<open>sale_date\<close> is the server's clock: no request changes
  the row of an existing sale.
\<close>

theorem sale_date_server_assigned:
  assumes "map_of d ''product'' = map_of d' ''product''"
    and "map_of d ''user'' = map_of d' ''user''"
  shows "dispatch e (POST_sales d) s = dispatch e (POST_sales d') s
         \<and> (shop_sale (snd (dispatch e rq s)) = shop_sale s
            \<or> (\<exists>pk. shop_sale (snd (dispatch e rq s)) =
                   delete_rows (\<lambda>k r. sale_product r = pk) (shop_sale s))
            \<or> (\<exists>p u. shop_sale (snd (dispatch e rq s)) =
                   shop_sale s @ [(next_pk (shop_sale s),
                     \<lparr>sale_product = p, sale_user = u, sale_date = now e\<rparr>)]))"
proof
  show "dispatch e (POST_sales d) s = dispatch e (POST_sales d') s"
    using sale_validation_reads [OF assms, of e s]
    by (simp add: SaleCreateView_post_def CreateAPIView_post_def)
  show "shop_sale (snd (dispatch e rq s)) = shop_sale s
            \<or> (\<exists>pk. shop_sale (snd (dispatch e rq s)) =
                   delete_rows (\<lambda>k r. sale_product r = pk) (shop_sale s))
            \<or> (\<exists>p u. shop_sale (snd (dispatch e rq s)) =
                   shop_sale s @ [(next_pk (shop_sale s),
                     \<lparr>sale_product = p, sale_user = u, sale_date = now e\<rparr>)])"
    by (rule dispatch_sale_rows)
qed

lemma sale_post_example:
  "shop_sale (snd (dispatch env0
      (POST_sales [(''product'', JInt 1), (''user'', JInt 1)]) db_shop)) =
   [(1, \<lparr>sale_product = 1, sale_user = 1, sale_date = 900\<rparr>),
    (2, \<lparr>sale_product = 1, sale_user = 1, sale_date = 1000\<rparr>)]"
  by code_simp

theorem sale_date_server_assigned_witness:
  "map_of [(''sale_date'', JStr ''1999-01-01''), (''product'', JInt 1), (''user'', JInt 1)]
       ''product'' = map_of [(''product'', JInt 1), (''user'', JInt 1)] ''product''
   \<and> map_of [(''sale_date'', JStr ''1999-01-01''), (''product'', JInt 1), (''user'', JInt 1)]
       ''user'' = map_of [(''product'', JInt 1), (''user'', JInt 1)] ''user''
   \<and> shop_sale (snd (dispatch env0
        (POST_sales [(''sale_date'', JStr ''1999-01-01''), (''product'', JInt 1),
                     (''user'', JInt 1)]) db_shop)) =
      [(1, \<lparr>sale_product = 1, sale_user = 1, sale_date = 900\<rparr>),
       (2, \<lparr>sale_product = 1, sale_user = 1, sale_date = 1000\<rparr>)]"
proof -
  let ?d = "[(''sale_date'', JStr ''1999-01-01''), (''product'', JInt 1), (''user'', JInt 1)]"
  let ?d' = "[(''product'', JInt 1), (''user'', JInt 1)]"
  have a: "map_of ?d ''product'' = map_of ?d' ''product''" by simp
  have b: "map_of ?d ''user'' = map_of ?d' ''user''" by simp
  from sale_date_server_assigned [OF a b, of env0 db_shop]
  have "dispatch env0 (POST_sales ?d) db_shop = dispatch env0 (POST_sales ?d') db_shop"
    by blast
  with sale_post_example a b show ?thesis by simp
qed


section \<open>Creating a product and reading it back\<close>

lemma frv_CharField:
  "field_run_validation False (CharField a ml) (Some (JStr x)) =
     (case CharField_validate ml x of Inl err \<Rightarrow> Fail err | Inr v \<Rightarrow> Ok (PyStr v))"
  by (simp add: field_run_validation_def CharField_def CharField_to_internal_value_def
        split: sum.splits)

lemma frv_DecimalField:
  "field_run_validation False (DecimalField e a) (Some vp) =
     (if vp = JNull then Fail (detail ''This field may not be null.'')
      else case decimal_in e vp of Inl err \<Rightarrow> Fail err | Inr c \<Rightarrow> Ok (PyDecimal c))"
  by (cases vp) (simp_all add: field_run_validation_def DecimalField_def split: sum.splits)

lemma frv_PrimaryKeyRelatedField:
  "field_run_validation False (PrimaryKeyRelatedField e a t) (Some (JInt k)) =
     (case pk_lookup t k of Inl err \<Rightarrow> Fail err | Inr v \<Rightarrow> Ok v)"
  by (simp add: field_run_validation_def PrimaryKeyRelatedField_def split: sum.splits)

lemma CharField_validate_Inr: "CharField_validate ml x = Inr n \<Longrightarrow> n = strip x"
  by (auto simp: CharField_validate_def Let_def split: if_splits)

lemma pk_lookup_Inr:
  "pk_lookup t k = Inr v \<Longrightarrow> 0 \<le> k \<and> v = PyRef (nat k) \<and> map_of t (nat k) \<noteq> None"
  by (auto simp: pk_lookup_def split: if_splits)

lemma ProductSerializer_fields:
  "field_name (CharField a ml) = a" "\<not> read_only (CharField a ml)"
  "field_name (DecimalField e a) = a" "\<not> read_only (DecimalField e a)"
  "field_name (PrimaryKeyRelatedField e a t) = a"
  "\<not> read_only (PrimaryKeyRelatedField e a t)"
  "read_only id_field"
  by (simp_all add: CharField_def DecimalField_def PrimaryKeyRelatedField_def id_field_def)

text \<open>Validation of a product body whose name is a string and whose user is a number.\<close>

lemma product_validation:
  assumes "map_of d ''name'' = Some (JStr x)" and "map_of d ''price'' = Some vp"
    and "map_of d ''user'' = Some (JInt k)"
  shows "(\<exists>errors. run_validation False (ProductSerializer e s) d = Inl errors)
         \<or> (\<exists>c. decimal_in e vp = Inr c \<and> 0 \<le> k
              \<and> run_validation False (ProductSerializer e s) d =
                  Inr [(''name'', PyStr (strip x)), (''price'', PyDecimal c),
                       (''user'', PyRef (nat k))])"
proof (cases "CharField_validate 255 x")
  case (Inl err)
  with assms show ?thesis
    by (simp add: run_validation_def ProductSerializer_def ProductSerializer_fields
          frv_CharField frv_DecimalField frv_PrimaryKeyRelatedField
          split: validated.splits sum.splits)
next
  case n: (Inr n)
  then have n': "n = strip x" by (rule CharField_validate_Inr)
  show ?thesis
  proof (cases "vp = JNull")
    case True
    with assms n show ?thesis
      by (simp add: run_validation_def ProductSerializer_def ProductSerializer_fields
            frv_CharField frv_DecimalField frv_PrimaryKeyRelatedField
            split: validated.splits sum.splits)
  next
    case notnull: False
    show ?thesis
    proof (cases "decimal_in e vp")
      case (Inl err)
      with assms n notnull show ?thesis
        by (simp add: run_validation_def ProductSerializer_def ProductSerializer_fields
              frv_CharField frv_DecimalField frv_PrimaryKeyRelatedField
              split: validated.splits sum.splits)
    next
      case c: (Inr c)
      show ?thesis
      proof (cases "pk_lookup (auth_user s) k")
        case (Inl err)
        with assms n notnull c show ?thesis
          by (simp add: run_validation_def ProductSerializer_def ProductSerializer_fields
                frv_CharField frv_DecimalField frv_PrimaryKeyRelatedField)
      next
        case (Inr v)
        then have "0 \<le> k" and "v = PyRef (nat k)" using pk_lookup_Inr by blast+
        with assms n n' notnull c Inr show ?thesis
          by (simp add: run_validation_def ProductSerializer_def ProductSerializer_fields
                frv_CharField frv_DecimalField frv_PrimaryKeyRelatedField)
      qed
    qed
  qed
qed

lemma product_data:
  "serializer_data (ProductSerializer e s) (Product_getattr (pk, r)) =
     JObj [(''id'', JInt (int pk)), (''name'', JStr (product_name r)),
           (''price'', decimal_out e (product_price r)),
           (''user'', JInt (int (product_user r)))]"
  by (simp add: serializer_data_def ProductSerializer_def id_field_def CharField_def
        DecimalField_def PrimaryKeyRelatedField_def Product_getattr_def
        CharField_to_representation_def)

lemma get_product_present:
  "map_of (shop_product s) pk = Some r \<Longrightarrow>
   dispatch e (GET_product pk) s =
     (Inr (Response
             (JObj [(''id'', JInt (int pk)), (''name'', JStr (product_name r)),
                    (''price'', decimal_out e (product_price r)),
                    (''user'', JInt (int (product_user r)))]) 200), s)"
  by (simp add: ProductDetailView_get_def get_object_or_404_def product_data
        handle_exception_response HTTP_200_OK_def)

lemma post_products_invalid:
  "run_validation False (ProductSerializer e s) d = Inl errors \<Longrightarrow>
   dispatch e (POST_products d) s = (Inr (Response errors 400), s)"
  by (simp add: ProductListView_post_def CreateAPIView_post_def handle_exception_def
        HTTP_400_BAD_REQUEST_def)

lemma post_products_created:
  assumes "run_validation False (ProductSerializer e s) d =
             Inr [(''name'', PyStr n), (''price'', PyDecimal c), (''user'', PyRef u)]"
  shows "dispatch e (POST_products d) s =
     (Inr (Response
             (JObj [(''id'', JInt (int (next_pk (shop_product s)))), (''name'', JStr n),
                    (''price'', decimal_out e c), (''user'', JInt (int u))]) 201),
      s\<lparr>shop_product :=
           insert_row (shop_product s)
             \<lparr>product_name = n, product_price = c, product_user = u\<rparr>\<rparr>)"
  using assms
  by (simp add: ProductListView_post_def CreateAPIView_post_def Product_create_def
        as_decimal_def as_ref_def as_str_def product_data handle_exception_response
        HTTP_201_CREATED_def Let_def)

text \<open>
  C8, as amended. For every valid product-creation request (it is answered with 201)
  whose name is a JSON string and whose user is a JSON number, the response and a GET
  of the returned id both carry the returned id, the submitted user, the submitted name
  without its surrounding whitespace, and the price as the decimal field read and
  prints it.
\<close>

theorem product_create_then_get:
  assumes "map_of d ''name'' = Some (JStr x)" and "map_of d ''price'' = Some vp"
    and "map_of d ''user'' = Some (JInt k)"
    and "fst (dispatch e (POST_products d) s) = Inr (Response body 201)"
  shows "\<exists>c. decimal_in e vp = Inr c
           \<and> body = JObj [(''id'', JInt (int (next_pk (shop_product s)))),
                          (''name'', JStr (strip x)), (''price'', decimal_out e c),
                          (''user'', JInt k)]
           \<and> dispatch e (GET_product (next_pk (shop_product s)))
                 (snd (dispatch e (POST_products d) s)) =
               (Inr (Response body 200), snd (dispatch e (POST_products d) s))"
  using product_validation [OF assms(1-3), of e s]
proof (elim disjE exE conjE)
  fix errors
  assume "run_validation False (ProductSerializer e s) d = Inl errors"
  then have "dispatch e (POST_products d) s = (Inr (Response errors 400), s)"
    by (rule post_products_invalid)
  with assms(4) show ?thesis by simp
next
  fix c
  assume c: "decimal_in e vp = Inr c" and k: "0 \<le> k"
    and "run_validation False (ProductSerializer e s) d =
           Inr [(''name'', PyStr (strip x)), (''price'', PyDecimal c),
                (''user'', PyRef (nat k))]"
  note created = post_products_created [OF this(3)]
  let ?r = "\<lparr>product_name = strip x, product_price = c, product_user = nat k\<rparr>"
  let ?s' = "s\<lparr>shop_product := insert_row (shop_product s) ?r\<rparr>"
  let ?body = "JObj [(''id'', JInt (int (next_pk (shop_product s)))),
                     (''name'', JStr (strip x)), (''price'', decimal_out e c),
                     (''user'', JInt k)]"
  from created assms(4) k have body: "body = ?body" by simp
  from created have st: "snd (dispatch e (POST_products d) s) = ?s'" by simp
  have "map_of (shop_product ?s') (next_pk (shop_product s)) = Some ?r"
    by (simp add: map_of_insert_row_new)
  from get_product_present [OF this, of e] k
  have "dispatch e (GET_product (next_pk (shop_product s))) ?s' =
          (Inr (Response ?body 200), ?s')"
    by simp
  with body st c have
    "decimal_in e vp = Inr c \<and> body = ?body
       \<and> dispatch e (GET_product (next_pk (shop_product s)))
            (snd (dispatch e (POST_products d) s)) =
          (Inr (Response body 200), snd (dispatch e (POST_products d) s))"
    by simp
  then show ?thesis by (rule exI [of _ c])
qed

lemma post_products_example:
  "fst (dispatch env0
     (POST_products [(''name'', JStr '' Widget ''), (''price'', JInt 5), (''user'', JInt 1)])
     db_alice) =
   Inr (Response (JObj [(''id'', JInt 1), (''name'', JStr ''Widget''),
                        (''price'', JInt 500), (''user'', JInt 1)]) 201)"
  by code_simp

theorem product_create_then_get_witness:
  "fst (dispatch env0
     (POST_products [(''name'', JStr '' Widget ''), (''price'', JInt 5), (''user'', JInt 1)])
     db_alice) =
   Inr (Response (JObj [(''id'', JInt 1), (''name'', JStr ''Widget''),
                        (''price'', JInt 500), (''user'', JInt 1)]) 201)
   \<and> fst (dispatch env0 (GET_product (next_pk (shop_product db_alice)))
       (snd (dispatch env0
         (POST_products [(''name'', JStr '' Widget ''), (''price'', JInt 5),
                         (''user'', JInt 1)]) db_alice))) =
     Inr (Response (JObj [(''id'', JInt 1), (''name'', JStr ''Widget''),
                          (''price'', JInt 500), (''user'', JInt 1)]) 200)"
proof -
  let ?d = "[(''name'', JStr '' Widget ''), (''price'', JInt 5), (''user'', JInt 1)]"
  have a: "map_of ?d ''name'' = Some (JStr '' Widget '')" by simp
  have b: "map_of ?d ''price'' = Some (JInt 5)" by simp
  have c: "map_of ?d ''user'' = Some (JInt 1)" by simp
  from product_create_then_get [OF a b c post_products_example] post_products_example
  show ?thesis by auto
qed

text \<open>
  C8 as stated fails on the name: a name submitted with surrounding blanks comes back
  without them.
\<close>

theorem product_round_trip_trims_name:
  "fst (dispatch env0 (GET_product 1)
     (snd (dispatch env0
        (POST_products [(''name'', JStr '' Widget ''), (''price'', JInt 5),
                        (''user'', JInt 1)]) db_alice))) =
   Inr (Response (JObj [(''id'', JInt 1), (''name'', JStr ''Widget''),
                        (''price'', JInt 500), (''user'', JInt 1)]) 200)
   \<and> JStr ''Widget'' \<noteq> JStr '' Widget ''"
  by code_simp

section \<open>Registering a user\<close>

lemma frv_required_not_Skip:
  "required f \<Longrightarrow> field_run_validation False f x \<noteq> Skip"
  by (cases x) (auto simp: field_run_validation_def split: json.splits sum.splits)

lemma frv_Ok:
  "field_run_validation False f x = Ok pv \<Longrightarrow>
   \<exists>y. x = Some y \<and> to_internal_value f y = Inr pv"
  by (cases x)
     (auto simp: field_run_validation_def split: json.splits sum.splits if_splits)

lemma user_data:
  "serializer_data (UserSerializer e s) (User_getattr (pk, r)) =
     JObj [(''id'', JInt (int pk)), (''username'', JStr (user_username r))]"
  by (simp add: serializer_data_def UserSerializer_def id_field_def username_field_def
        CharField_def User_getattr_def CharField_to_representation_def)

lemma UserSerializer_fields:
  "field_name (username_field e s) = ''username''" "\<not> read_only (username_field e s)"
  "required (username_field e s)"
  "field_name ((CharField ''password'' 128)\<lparr>write_only := True\<rparr>) = ''password''"
  "\<not> read_only ((CharField ''password'' 128)\<lparr>write_only := True\<rparr>)"
  "required ((CharField ''password'' 128)\<lparr>write_only := True\<rparr>)"
  by (simp_all add: username_field_def CharField_def)

lemma username_field_Ok:
  "to_internal_value (username_field e s) y = Inr pv \<Longrightarrow> \<exists>u. pv = PyStr u"
  by (auto simp: username_field_def CharField_def split: sum.splits if_splits)

lemma password_field_Ok:
  "to_internal_value ((CharField ''password'' 128)\<lparr>write_only := True\<rparr>) y = Inr pv \<Longrightarrow>
   \<exists>raw. CharField_to_internal_value 128 y = Inr raw \<and> pv = PyStr raw"
  by (auto simp: CharField_def split: sum.splits)

lemma user_validation:
  assumes "run_validation False (UserSerializer e s) d = Inr vd"
  shows "\<exists>u raw v. vd = [(''username'', PyStr u), (''password'', PyStr raw)]
           \<and> map_of d ''password'' = Some v
           \<and> CharField_to_internal_value 128 v = Inr raw"
proof -
  let ?uf = "username_field e s"
  let ?pf = "(CharField ''password'' 128)\<lparr>write_only := True\<rparr>"
  have nu: "field_run_validation False ?uf (map_of d ''username'') \<noteq> Skip"
    by (rule frv_required_not_Skip) (simp add: UserSerializer_fields)
  have np: "field_run_validation False ?pf (map_of d ''password'') \<noteq> Skip"
    by (rule frv_required_not_Skip) (simp add: UserSerializer_fields)
  from assms nu np obtain pu pp where
    u: "field_run_validation False ?uf (map_of d ''username'') = Ok pu" and
    p: "field_run_validation False ?pf (map_of d ''password'') = Ok pp" and
    vd: "vd = [(''username'', pu), (''password'', pp)]"
    by (cases "field_run_validation False ?uf (map_of d ''username'')";
        cases "field_run_validation False ?pf (map_of d ''password'')")
       (simp_all add: run_validation_def UserSerializer_def UserSerializer_fields
          ProductSerializer_fields)
  from frv_Ok [OF u] username_field_Ok obtain un where un: "pu = PyStr un" by blast
  from frv_Ok [OF p] password_field_Ok obtain v raw where
    "map_of d ''password'' = Some v" "CharField_to_internal_value 128 v = Inr raw"
    "pp = PyStr raw"
    by blast
  with vd un show ?thesis by blast
qed
lemma post_users_invalid:
  "run_validation False (UserSerializer e s) d = Inl errors \<Longrightarrow>
   dispatch e (POST_users_create d) s = (Inr (Response errors 400), s)"
  by (simp add: UserCreateView_post_def CreateAPIView_post_def handle_exception_def
        HTTP_400_BAD_REQUEST_def)

lemma post_users_created:
  assumes "run_validation False (UserSerializer e s) d =
             Inr [(''username'', PyStr u), (''password'', PyStr raw)]"
  shows "dispatch e (POST_users_create d) s =
     (Inr (Response
             (JObj [(''id'', JInt (int (next_pk (auth_user s)))), (''username'', JStr u)])
             201),
      s\<lparr>auth_user :=
           insert_row (auth_user s)
             \<lparr>user_username = u, user_password = make_password e (Some raw)\<rparr>\<rparr>)"
  using assms
  by (simp add: UserCreateView_post_def CreateAPIView_post_def create_user_def
        as_str_def user_data handle_exception_response HTTP_201_CREATED_def Let_def)

text \<open>
  C7. For every registration request that creates a user (it is answered with 201),
  the new row's password column is \<open>make_password\<close> of the validated password, and the
  response data has the id and the username only. The serialized form of any user, in
  any state, has the id and the username only: the password field is write-only.
\<close>

theorem register_password_hashed_and_hidden:
  assumes "fst (dispatch e (POST_users_create d) s) = Inr (Response body 201)"
  shows "(\<exists>u raw v. map_of d ''password'' = Some v
            \<and> CharField_to_internal_value 128 v = Inr raw
            \<and> auth_user (snd (dispatch e (POST_users_create d) s)) =
                auth_user s @
                  [(next_pk (auth_user s),
                    \<lparr>user_username = u, user_password = make_password e (Some raw)\<rparr>)]
            \<and> body = JObj [(''id'', JInt (int (next_pk (auth_user s)))),
                           (''username'', JStr u)])
         \<and> serializer_data (UserSerializer e' s') (User_getattr (pk, r)) =
             JObj [(''id'', JInt (int pk)), (''username'', JStr (user_username r))]"
proof
  show "serializer_data (UserSerializer e' s') (User_getattr (pk, r)) =
          JObj [(''id'', JInt (int pk)), (''username'', JStr (user_username r))]"
    by (rule user_data)
  show "\<exists>u raw v. map_of d ''password'' = Some v
            \<and> CharField_to_internal_value 128 v = Inr raw
            \<and> auth_user (snd (dispatch e (POST_users_create d) s)) =
                auth_user s @
                  [(next_pk (auth_user s),
                    \<lparr>user_username = u, user_password = make_password e (Some raw)\<rparr>)]
            \<and> body = JObj [(''id'', JInt (int (next_pk (auth_user s)))),
                           (''username'', JStr u)]"
  proof (cases "run_validation False (UserSerializer e s) d")
    case (Inl errors)
    then have "dispatch e (POST_users_create d) s = (Inr (Response errors 400), s)"
      by (rule post_users_invalid)
    with assms show ?thesis by simp
  next
    case (Inr vd)
    from user_validation [OF this] obtain u raw v where
      vd: "vd = [(''username'', PyStr u), (''password'', PyStr raw)]" and
      v: "map_of d ''password'' = Some v" and
      raw: "CharField_to_internal_value 128 v = Inr raw"
      by blast
    note created = post_users_created [OF Inr [unfolded vd]]
    from created assms have
      "body = JObj [(''id'', JInt (int (next_pk (auth_user s)))), (''username'', JStr u)]"
      by simp
    moreover from created have
      "auth_user (snd (dispatch e (POST_users_create d) s)) =
         auth_user s @
           [(next_pk (auth_user s),
             \<lparr>user_username = u, user_password = make_password e (Some raw)\<rparr>)]"
      by (simp add: insert_row_def)
    ultimately show ?thesis using v raw by blast
  qed
qed

lemma post_users_example:
  "fst (dispatch env0
     (POST_users_create [(''username'', JStr ''bob''), (''password'', JStr ''hunter2'')])
     db_alice) =
   Inr (Response (JObj [(''id'', JInt 2), (''username'', JStr ''bob'')]) 201)"
  by code_simp

theorem register_password_hashed_and_hidden_witness:
  "fst (dispatch env0
     (POST_users_create [(''username'', JStr ''bob''), (''password'', JStr ''hunter2'')])
     db_alice) =
   Inr (Response (JObj [(''id'', JInt 2), (''username'', JStr ''bob'')]) 201)
   \<and> auth_user (snd (dispatch env0
       (POST_users_create [(''username'', JStr ''bob''), (''password'', JStr ''hunter2'')])
       db_alice)) =
     [(1, \<lparr>user_username = ''alice'', user_password = ''pbkdf2$secret''\<rparr>),
      (2, \<lparr>user_username = ''bob'', user_password = make_password env0 (Some ''hunter2'')\<rparr>)]"
proof -
  let ?d = "[(''username'', JStr ''bob''), (''password'', JStr ''hunter2'')]"
  from register_password_hashed_and_hidden [OF post_users_example] obtain u raw v where
    v: "map_of ?d ''password'' = Some v" and
    raw: "CharField_to_internal_value 128 v = Inr raw" and
    st: "auth_user (snd (dispatch env0 (POST_users_create ?d) db_alice)) =
           auth_user db_alice @
             [(next_pk (auth_user db_alice),
               \<lparr>user_username = u, user_password = make_password env0 (Some raw)\<rparr>)]" and
    body: "JObj [(''id'', JInt 2), (''username'', JStr ''bob'')] =
             JObj [(''id'', JInt (int (next_pk (auth_user db_alice)))), (''username'', JStr u)]"
    by blast
  from body have u: "u = ''bob''" by simp
  from v have "v = JStr ''hunter2''" by simp
  moreover have "CharField_to_internal_value 128 (JStr ''hunter2'') = Inr ''hunter2''"
    by code_simp
  ultimately have r: "raw = ''hunter2''" using raw by simp
  have "auth_user db_alice =
          [(1, \<lparr>user_username = ''alice'', user_password = ''pbkdf2$secret''\<rparr>)]"
    by code_simp
  moreover have "next_pk (auth_user db_alice) = 2" by code_simp
  ultimately show ?thesis using st u r post_users_example by simp
qed


end
